theory Spec2Isabelle
  imports Main "HOL-Library.Word" "HOL-Library.Sublist"
begin

section \<open>Path codec (pkg/utils/util.go)\<close>

text \<open>
  Go strings and byte slices are sequences of bytes; \<^typ>\<open>char\<close> is an 8-bit byte, so a Go
  \<^verbatim>\<open>string\<close> and a \<^verbatim>\<open>[]byte\<close> are both a \<^typ>\<open>char list\<close>.
\<close>

type_synonym bytes = "char list"

text \<open>
  \<^verbatim>\<open>strings.ReplaceAll(s, old, new)\<close> for a non-empty \<^verbatim>\<open>old\<close>: the
  non-overlapping occurrences of \<^verbatim>\<open>old\<close> are replaced from left to right. Both
  call sites of the repository pass a one-character \<^verbatim>\<open>old\<close>; for an empty one
  (where Go inserts \<^verbatim>\<open>new\<close> around every rune) the model returns \<^verbatim>\<open>s\<close>.
\<close>

fun ReplaceAll :: "string \<Rightarrow> string \<Rightarrow> string \<Rightarrow> string" where
  "ReplaceAll [] old new = []"
| "ReplaceAll (c # s) old new =
     (if old \<noteq> [] \<and> prefix old (c # s)
      then new @ ReplaceAll (drop (length old - 1) s) old new
      else c # ReplaceAll s old new)"

text \<open>
  \<^verbatim>\<open>func ConvertModelIDToHFPath(modelID string) string {
    return "models--" + strings.ReplaceAll(modelID, "/", "--") }\<close>
\<close>

definition ConvertModelIDToHFPath :: "string \<Rightarrow> string" where
  "ConvertModelIDToHFPath modelID = ''models--'' @ ReplaceAll modelID ''/'' ''--''"

text \<open>
  An identifier that uses the separator only as the owner/name delimiter: exactly one
  \<^verbatim>\<open>/\<close>, with a non-empty owner before it and a non-empty name after it.
\<close>

definition owner_name_id :: "string \<Rightarrow> bool" where
  "owner_name_id s \<longleftrightarrow>
     count_list s (CHR ''/'') = 1 \<and> s \<noteq> [] \<and> hd s \<noteq> CHR ''/'' \<and> last s \<noteq> CHR ''/''"

text \<open>
  No dash of the identifier is immediately followed by another dash or by the separator.
\<close>

fun dash_safe :: "string \<Rightarrow> bool" where
  "dash_safe (c # d # s) =
     ((c \<noteq> CHR ''-'' \<or> (d \<noteq> CHR ''-'' \<and> d \<noteq> CHR ''/'')) \<and> dash_safe (d # s))"
| "dash_safe s = True"

text \<open>The left inverse of the replacement on dash-safe identifiers: a greedy scan.\<close>

fun undash :: "string \<Rightarrow> string" where
  "undash (c # d # s) =
     (if c = CHR ''-'' \<and> d = CHR ''-'' then CHR ''/'' # undash s else c # undash (d # s))"
| "undash s = s"

section \<open>The tee writer (pkg/proxy/hf_proxy.go, streamWriter)\<close>

text \<open>
  An \<^verbatim>\<open>io.Writer\<close> is a state \<^typ>\<open>'w\<close> with a \<^verbatim>\<open>Write\<close> method: given
  the bytes it returns the new state, the count it reports and the error, if any.
\<close>

datatype io_error = WriteError string

type_synonym 'w Writer = "'w \<Rightarrow> bytes \<Rightarrow> 'w \<times> int \<times> io_error option"

text \<open>
  \<^verbatim>\<open>type streamWriter struct { writer io.Writer; buffer []byte }\<close>
\<close>

record 'w streamWriter =
  writer :: 'w
  buffer :: bytes

text \<open>
  Go's builtin \<^verbatim>\<open>copy(dst, src)\<close>: the first \<^verbatim>\<open>min(len(dst), len(src))\<close> bytes of
  \<^verbatim>\<open>src\<close> overwrite the start of \<^verbatim>\<open>dst\<close>; the count is returned.
\<close>

definition copy :: "bytes \<Rightarrow> bytes \<Rightarrow> bytes \<times> nat" where
  "copy dst src =
     (let n = min (length dst) (length src) in (take n src @ drop n dst, n))"

text \<open>
  \<^verbatim>\<open>func (sw *streamWriter) Write(p []byte) (n int, err error)\<close>: the loop, with the
  running \<^verbatim>\<open>written\<close> as an argument. It returns the writer after the call, the
  count and the error. The count is an \<^typ>\<open>int\<close>: under a writer that keeps the
  \<^verbatim>\<open>io.Writer\<close> contract it never exceeds \<^verbatim>\<open>len(p)\<close>, far from the range of Go's
  \<^verbatim>\<open>int\<close>.
\<close>

function Write_loop ::
  "'w Writer \<Rightarrow> 'w streamWriter \<Rightarrow> bytes \<Rightarrow> int \<Rightarrow> 'w streamWriter \<times> int \<times> io_error option"
where
  "Write_loop wr sw p written =
     (if length p > 0 then
        (case copy (buffer sw) p of (buf, copySize) \<Rightarrow>
           if copySize = 0 then (sw, written, None)
           else
             (case wr (writer sw) (take copySize buf) of (w, wn, werr) \<Rightarrow>
                (case werr of
                   Some e \<Rightarrow> (sw\<lparr>writer := w, buffer := buf\<rparr>, written + wn, Some e)
                 | None \<Rightarrow>
                     Write_loop wr (sw\<lparr>writer := w, buffer := buf\<rparr>) (drop copySize p)
                       (written + wn))))
      else (sw, written, None))"
  by pat_completeness auto
termination
  by (relation "measure (\<lambda>(wr, sw, p, written). length p)") (auto simp: copy_def)

definition Write ::
  "'w Writer \<Rightarrow> 'w streamWriter \<Rightarrow> bytes \<Rightarrow> 'w streamWriter \<times> int \<times> io_error option"
where
  "Write wr sw p = Write_loop wr sw p 0"





section \<open>Paths (path/filepath)\<close>

text \<open>
  A path of the file system is the list of its components from the root. The base
  directories are absolute, so every path the code builds with \<^verbatim>\<open>filepath.Join\<close> is
  rooted.
\<close>

type_synonym path = "string list"

text \<open>\<^verbatim>\<open>strings.Split(s, "/")\<close>: never empty; an empty string splits into one empty part.\<close>

fun split_slash :: "string \<Rightarrow> string list" where
  "split_slash [] = [[]]"
| "split_slash (c # s) =
     (if c = CHR ''/'' then [] # split_slash s
      else (case split_slash s of [] \<Rightarrow> [[c]] | x # xs \<Rightarrow> (c # x) # xs))"

text \<open>
  \<^verbatim>\<open>filepath.Clean\<close> on a rooted path, one component at a time: empty components and
  \<^verbatim>\<open>.\<close> are dropped, \<^verbatim>\<open>..\<close> removes the component before it (and is dropped at the
  root).
\<close>

definition clean_step :: "path \<Rightarrow> string \<Rightarrow> path" where
  "clean_step acc c =
     (if c = [] \<or> c = ''.'' then acc else if c = ''..'' then butlast acc else acc @ [c])"

text \<open>
  \<^verbatim>\<open>filepath.Join(dir, elem)\<close> for a rooted, clean \<^verbatim>\<open>dir\<close>: the cleaned
  \<^verbatim>\<open>dir + "/" + elem\<close>. A call with several elements is the same as joining them one
  after the other.
\<close>

definition Join :: "path \<Rightarrow> string \<Rightarrow> path" where
  "Join dir elem = foldl clean_step dir (split_slash elem)"

text \<open>The string of a rooted path, as Go holds it.\<close>

definition path_string :: "path \<Rightarrow> string" where
  "path_string p = (if p = [] then ''/'' else concat (map (\<lambda>c. CHR ''/'' # c) p))"

text \<open>
  \<^verbatim>\<open>_, file := filepath.Split(path)\<close>: what follows the last \<^verbatim>\<open>/\<close> (all of the path
  when it has none).
\<close>

definition Split_file :: "string \<Rightarrow> string" where
  "Split_file s = rev (takeWhile (\<lambda>c. c \<noteq> CHR ''/'') (rev s))"

definition IsAbs :: "string \<Rightarrow> bool" where
  "IsAbs s = (case s of [] \<Rightarrow> False | c # _ \<Rightarrow> c = CHR ''/'')"

text \<open>
  \<^verbatim>\<open>filepath.Abs(path)\<close>: an absolute path is cleaned, a relative one is joined to the
  working directory \<^verbatim>\<open>cwd\<close> of the process.
\<close>

definition Abs :: "path \<Rightarrow> string \<Rightarrow> string" where
  "Abs cwd s = path_string (Join (if IsAbs s then [] else cwd) s)"

section \<open>The file system (package os)\<close>

text \<open>
  The file system is a tree: a regular file with its bytes, a symbolic link with its
  target string, or a directory with its named entries. A directory lists its entries in
  the order of its list (Go sorts a listing by name; no claim depends on the order).
  The directories on the way to a file are directories of the tree itself: a symbolic link
  in the middle of a path is not followed (the cache lays out real directories), one
  at the end of a path is, by the calls that follow links.
\<close>

datatype node = File bytes | Symlink string | Dir "(string \<times> node) list"

datatype errno = ENOENT | ENOTDIR | EISDIR | EINVAL | ELOOP | ENOTEMPTY

fun is_Dir :: "node \<Rightarrow> bool" where
  "is_Dir (Dir es) = True"
| "is_Dir n = False"

fun is_Symlink :: "node \<Rightarrow> bool" where
  "is_Symlink (Symlink t) = True"
| "is_Symlink n = False"

text \<open>The entry at a path, links not followed.\<close>

fun lookup :: "node \<Rightarrow> path \<Rightarrow> errno + node" where
  "lookup n [] = Inr n"
| "lookup (Dir es) (c # cs) =
     (case map_of es c of None \<Rightarrow> Inl ENOENT | Some m \<Rightarrow> lookup m cs)"
| "lookup n (c # cs) = Inl ENOTDIR"

text \<open>Replacing an entry of a directory listing in place, or appending a new one.\<close>

fun set_entry :: "string \<Rightarrow> node \<Rightarrow> (string \<times> node) list \<Rightarrow> (string \<times> node) list" where
  "set_entry c m [] = [(c, m)]"
| "set_entry c m ((k, v) # es) = (if k = c then (c, m) # es else (k, v) # set_entry c m es)"

text \<open>
  Writing (\<open>Some\<close>) or removing (\<open>None\<close>) the entry at a path whose parent directory
  exists.
\<close>

fun update :: "node \<Rightarrow> path \<Rightarrow> node option \<Rightarrow> errno + node" where
  "update n [] v = Inl EINVAL"
| "update (Dir es) [c] v =
     Inr (Dir (case v of Some m \<Rightarrow> set_entry c m es | None \<Rightarrow> filter (\<lambda>e. fst e \<noteq> c) es))"
| "update (Dir es) (c # cs) v =
     (case map_of es c of
        None \<Rightarrow> Inl ENOENT
      | Some m \<Rightarrow>
          (case update m cs v of Inl e \<Rightarrow> Inl e | Inr m' \<Rightarrow> Inr (Dir (set_entry c m' es))))"
| "update n (c # cs) v = Inl ENOTDIR"

text \<open>
  The path a symbolic link at \<^verbatim>\<open>link\<close> with target \<^verbatim>\<open>t\<close> leads to: an absolute target
  from the root, a relative one from the directory of the link, with \<^verbatim>\<open>.\<close> and
  \<^verbatim>\<open>..\<close> resolved on the names alone.
\<close>

definition target_path :: "path \<Rightarrow> string \<Rightarrow> path" where
  "target_path link t = Join (if IsAbs t then [] else butlast link) t"

text \<open>
  Following the links at the end of a path, at most \<^verbatim>\<open>fuel\<close> of them (the kernel gives
  up with \<^verbatim>\<open>ELOOP\<close> after 40): the path reached and the entry there.
\<close>

fun resolve :: "node \<Rightarrow> nat \<Rightarrow> path \<Rightarrow> errno + (path \<times> node)" where
  "resolve fs 0 p =
     (case lookup fs p of
        Inl e \<Rightarrow> Inl e
      | Inr (Symlink t) \<Rightarrow> Inl ELOOP
      | Inr n \<Rightarrow> Inr (p, n))"
| "resolve fs (Suc fuel) p =
     (case lookup fs p of
        Inl e \<Rightarrow> Inl e
      | Inr (Symlink t) \<Rightarrow> resolve fs fuel (target_path p t)
      | Inr n \<Rightarrow> Inr (p, n))"

definition MAXSYMLINKS :: nat where
  "MAXSYMLINKS = 40"

text \<open>
  \<^verbatim>\<open>os.FileInfo\<close>: the base name, the size (an \<^verbatim>\<open>int64\<close>), whether it is a directory,
  and the symlink bit of the mode. A file reports the number of its bytes, a link the
  length of its target; what a directory reports depends on the file system, 4096 here.
\<close>

record FileInfo =
  Name :: string
  Size :: "64 word"
  IsDir :: bool
  ModeSymlink :: bool

definition dir_size :: "64 word" where
  "dir_size = 4096"

fun node_size :: "node \<Rightarrow> 64 word" where
  "node_size (File b) = of_nat (length b)"
| "node_size (Symlink t) = of_nat (length t)"
| "node_size (Dir es) = dir_size"

definition info_of :: "string \<Rightarrow> node \<Rightarrow> FileInfo" where
  "info_of name n =
     \<lparr>Name = name, Size = node_size n, IsDir = is_Dir n, ModeSymlink = is_Symlink n\<rparr>"

definition base_name :: "path \<Rightarrow> string" where
  "base_name p = (if p = [] then ''/'' else last p)"

text \<open>\<^verbatim>\<open>os.Lstat\<close> describes the entry itself, \<^verbatim>\<open>os.Stat\<close> what the links lead to.\<close>

definition os_Lstat :: "node \<Rightarrow> path \<Rightarrow> errno + FileInfo" where
  "os_Lstat fs p = (case lookup fs p of Inl e \<Rightarrow> Inl e | Inr n \<Rightarrow> Inr (info_of (base_name p) n))"

definition os_Stat :: "node \<Rightarrow> path \<Rightarrow> errno + FileInfo" where
  "os_Stat fs p =
     (case resolve fs MAXSYMLINKS p of
        Inl e \<Rightarrow> Inl e
      | Inr (q, n) \<Rightarrow> Inr (info_of (base_name p) n))"

text \<open>\<^verbatim>\<open>os.IsNotExist(err)\<close>\<close>

fun IsNotExist :: "errno + 'a \<Rightarrow> bool" where
  "IsNotExist (Inl e) = (e = ENOENT)"
| "IsNotExist (Inr x) = False"

definition os_Readlink :: "node \<Rightarrow> path \<Rightarrow> errno + string" where
  "os_Readlink fs p =
     (case lookup fs p of
        Inl e \<Rightarrow> Inl e
      | Inr (Symlink t) \<Rightarrow> Inr t
      | Inr n \<Rightarrow> Inl EINVAL)"

definition os_ReadFile :: "node \<Rightarrow> path \<Rightarrow> errno + bytes" where
  "os_ReadFile fs p =
     (case resolve fs MAXSYMLINKS p of
        Inl e \<Rightarrow> Inl e
      | Inr (q, File b) \<Rightarrow> Inr b
      | Inr (q, n) \<Rightarrow> Inl EISDIR)"

text \<open>
  \<^verbatim>\<open>os.ReadDir\<close>: the entries of a directory, each with its name and its own node (a
  \<^verbatim>\<open>DirEntry\<close> reports the type of the entry itself, links not followed).
\<close>

definition os_ReadDir :: "node \<Rightarrow> path \<Rightarrow> errno + (string \<times> node) list" where
  "os_ReadDir fs p =
     (case resolve fs MAXSYMLINKS p of
        Inl e \<Rightarrow> Inl e
      | Inr (q, Dir es) \<Rightarrow> Inr es
      | Inr (q, n) \<Rightarrow> Inl ENOTDIR)"

text \<open>
  \<^verbatim>\<open>os.Create\<close> opens with \<^verbatim>\<open>O_CREATE|O_TRUNC\<close>, following links: an existing file is
  emptied, a missing one is created when its directory exists. The handle returned is the
  path of the file opened.
\<close>

definition truncate_at :: "node \<Rightarrow> path \<Rightarrow> errno + (node \<times> path)" where
  "truncate_at fs p =
     (case update fs p (Some (File [])) of Inl e \<Rightarrow> Inl e | Inr fs' \<Rightarrow> Inr (fs', p))"

fun create_at :: "node \<Rightarrow> nat \<Rightarrow> path \<Rightarrow> errno + (node \<times> path)" where
  "create_at fs 0 p =
     (case lookup fs p of
        Inr (Symlink t) \<Rightarrow> Inl ELOOP
      | Inr (Dir es) \<Rightarrow> Inl EISDIR
      | Inr (File b) \<Rightarrow> truncate_at fs p
      | Inl e \<Rightarrow> (if e = ENOENT then truncate_at fs p else Inl e))"
| "create_at fs (Suc fuel) p =
     (case lookup fs p of
        Inr (Symlink t) \<Rightarrow> create_at fs fuel (target_path p t)
      | Inr (Dir es) \<Rightarrow> Inl EISDIR
      | Inr (File b) \<Rightarrow> truncate_at fs p
      | Inl e \<Rightarrow> (if e = ENOENT then truncate_at fs p else Inl e))"

definition os_Create :: "node \<Rightarrow> path \<Rightarrow> errno + (node \<times> path)" where
  "os_Create fs p = create_at fs MAXSYMLINKS p"

text \<open>\<^verbatim>\<open>os.Remove\<close>: a file, a link or an empty directory; the link itself, not its target.\<close>

definition os_Remove :: "node \<Rightarrow> path \<Rightarrow> errno + node" where
  "os_Remove fs p =
     (case lookup fs p of
        Inl e \<Rightarrow> Inl e
      | Inr (Dir es) \<Rightarrow> (if es = [] then update fs p None else Inl ENOTEMPTY)
      | Inr n \<Rightarrow> update fs p None)"

text \<open>\<^verbatim>\<open>os.MkdirAll\<close>: every missing directory of the path is created.\<close>

fun os_MkdirAll :: "node \<Rightarrow> path \<Rightarrow> errno + node" where
  "os_MkdirAll (Dir es) [] = Inr (Dir es)"
| "os_MkdirAll (Dir es) (c # cs) =
     (case map_of es c of
        None \<Rightarrow>
          (case os_MkdirAll (Dir []) cs of
             Inl e \<Rightarrow> Inl e
           | Inr m \<Rightarrow> Inr (Dir (es @ [(c, m)])))
      | Some m \<Rightarrow>
          (case os_MkdirAll m cs of
             Inl e \<Rightarrow> Inl e
           | Inr m' \<Rightarrow> Inr (Dir (set_entry c m' es))))"
| "os_MkdirAll n p = Inl ENOTDIR"

text \<open>A call whose error the code drops leaves the file system as it was on failure.\<close>

definition ignoring_error :: "node \<Rightarrow> errno + node \<Rightarrow> node" where
  "ignoring_error fs r = (case r of Inl e \<Rightarrow> fs | Inr fs' \<Rightarrow> fs')"

text \<open>
  The idiom \<^verbatim>\<open>if _, err := os.Stat(dir); os.IsNotExist(err) { os.MkdirAll(dir, 0755) }\<close>.
\<close>

definition ensure_dir :: "node \<Rightarrow> path \<Rightarrow> node" where
  "ensure_dir fs dir =
     (if IsNotExist (os_Stat fs dir) then ignoring_error fs (os_MkdirAll fs dir) else fs)"

text \<open>
  Writing through the handle of an open file appends at its end (the handle was opened
  at offset 0 on an emptied file).
\<close>

definition fs_Write :: "path \<Rightarrow> node Writer" where
  "fs_Write h fs p =
     (case lookup fs h of
        Inr (File b) \<Rightarrow>
          (case update fs h (Some (File (b @ p))) of
             Inl e \<Rightarrow> (fs, 0, Some (WriteError ''write''))
           | Inr fs' \<Rightarrow> (fs', int (length p), None))
      | _ \<Rightarrow> (fs, 0, Some (WriteError ''write'')))"

section \<open>The caching proxy (pkg/proxy/hf_proxy.go)\<close>

text \<open>
  What the response hook reads of an exchange: the request method, the route variables
  of \<^verbatim>\<open>mux.Vars\<close>, the response headers, and the body as the sequence of slices
  the upstream reader delivers. A missing variable or header reads as the empty string.
\<close>

record Response =
  Method :: string
  Vars :: "string \<rightharpoonup> string"
  Header :: "string \<rightharpoonup> string"
  Body :: "bytes list"

definition Get :: "(string \<rightharpoonup> string) \<Rightarrow> string \<Rightarrow> string" where
  "Get m k = (case m k of None \<Rightarrow> [] | Some v \<Rightarrow> v)"

text \<open>\<^verbatim>\<open>New: func() interface{} { return make([]byte, 64*1024) }\<close>\<close>

definition bufferPool_New :: bytes where
  "bufferPool_New = replicate (64 * 1024) (CHR 0x00)"

text \<open>
  \<^verbatim>\<open>func (p *Proxy) path(modelID string) string\<close>, with \<^verbatim>\<open>p.baseDir\<close> as
  \<^verbatim>\<open>baseDir\<close>: the directory is created when missing.
\<close>

definition proxy_path :: "path \<Rightarrow> node \<Rightarrow> string \<Rightarrow> node \<times> path" where
  "proxy_path baseDir fs modelID =
     (let dir = Join (Join baseDir ''hub'') (ConvertModelIDToHFPath modelID)
      in (ensure_dir fs dir, dir))"

text \<open>\<^verbatim>\<open>func getCommitAndEtag(res *http.Response) (string, string, error)\<close>\<close>

definition getCommitAndEtag :: "Response \<Rightarrow> string \<times> string" where
  "getCommitAndEtag res =
     (let commitHash = Get (Header res) ''x-repo-commit'';
          etag = Get (Header res) ''x-linked-etag'';
          etag = (if length etag = 0 then Get (Header res) ''etag'' else etag);
          etag = ReplaceAll etag [CHR 0x22] []
      in (commitHash, etag))"

text \<open>
  Modelled from the spec: \<^verbatim>\<open>symlinkOrRename(blobPath, destfile)\<close>, whose source is not
  among the files of the repository. The spec: the snapshot entry is "a filesystem-level
  indirection (symbolic link) whose target is the Blob's path", and materialising it
  "creates the indirection entry pointing at the blob, replacing any existing entry at
  that path". The caller drops whatever it returns.
\<close>

definition symlinkOrRename :: "node \<Rightarrow> path \<Rightarrow> path \<Rightarrow> node" where
  "symlinkOrRename fs blobPath destfile =
     ignoring_error fs (update fs destfile (Some (Symlink (path_string blobPath))))"

text \<open>
  \<^verbatim>\<open>func (p *Proxy) CreateModelFile(resp *http.Response, r *http.Request) (*os.File, error)\<close>:
  the file system after the call, and the handle or the error of \<^verbatim>\<open>os.Create\<close>.
\<close>

definition CreateModelFile :: "path \<Rightarrow> node \<Rightarrow> Response \<Rightarrow> node \<times> (errno + path)" where
  "CreateModelFile baseDir fs resp =
     (let modelID = Get (Vars resp) ''model_id'';
          filename = Get (Vars resp) ''filename'';
          (commit, etag) = getCommitAndEtag resp;
          (fs, dir) = proxy_path baseDir fs modelID;
          blobDir = Join dir ''blobs'';
          fs = ensure_dir fs blobDir;
          blobPath = Join blobDir etag;
          created = os_Create fs blobPath;
          fs = (case created of Inl e \<Rightarrow> fs | Inr (fs', h) \<Rightarrow> fs');
          (fs, dir) = proxy_path baseDir fs modelID;
          destDir = Join (Join dir ''snapshots'') commit;
          fs = ensure_dir fs destDir;
          destfile = Join destDir filename;
          fs = symlinkOrRename fs blobPath destfile
      in (fs, map_sum id snd created))"

text \<open>\<^verbatim>\<open>func (p *Proxy) CreateModelIndexFile(r *http.Request) (*os.File, error)\<close>\<close>

definition CreateModelIndexFile :: "path \<Rightarrow> node \<Rightarrow> Response \<Rightarrow> node \<times> (errno + path)" where
  "CreateModelIndexFile baseDir fs resp =
     (let modelID = Get (Vars resp) ''model_id'';
          version = Get (Vars resp) ''version'';
          (fs, dir) = proxy_path baseDir fs modelID;
          modelIndexPath = Join dir ''.modeindex'';
          fs = (if isl (os_Stat fs modelIndexPath) then fs
                else ignoring_error fs (os_Remove fs modelIndexPath));
          created = os_Create fs modelIndexPath;
          fs = (case created of Inl e \<Rightarrow> fs | Inr (fs', h) \<Rightarrow> fs');
          (fs, dir) = proxy_path baseDir fs modelID;
          versionFileDir = Join dir ''refs'';
          fs = ensure_dir fs versionFileDir;
          versionFilePath = Join versionFileDir version;
          fs = (case os_Create fs versionFilePath of Inl e \<Rightarrow> fs | Inr (fs', h) \<Rightarrow> fs')
      in (fs, map_sum id snd created))"

text \<open>
  \<^verbatim>\<open>func (p *Proxy) WithModifyResponseToCache(resp *http.Response) error\<close>: the file
  system after the hook, and either the error it returns or the file the body is teed
  into (none for a \<^verbatim>\<open>HEAD\<close>, whose background fetch runs apart from the exchange and
  is not part of this model).
\<close>

definition WithModifyResponseToCache ::
  "path \<Rightarrow> node \<Rightarrow> Response \<Rightarrow> node \<times> (errno + path option)"
where
  "WithModifyResponseToCache baseDir fs resp =
     (if Method resp = ''HEAD'' then (fs, Inr None)
      else
        (let shaOrVersion = Get (Vars resp) ''sha'';
             (fs, f) = (if shaOrVersion = [] then CreateModelIndexFile baseDir fs resp
                        else CreateModelFile baseDir fs resp)
         in (fs, map_sum id Some f)))"

text \<open>
  \<^verbatim>\<open>io.TeeReader(resp.Body, &streamWriter{writer: f, buffer: buf})\<close>, read to the end by
  the reverse proxy: every slice read from upstream is written to the tee writer and then
  handed on to the client; a failed write ends the copy after that slice. The result is
  the writer, the slices the client received, and the error.
\<close>

fun tee_stream ::
  "'w Writer \<Rightarrow> 'w streamWriter \<Rightarrow> bytes list \<Rightarrow> 'w streamWriter \<times> bytes list \<times> io_error option"
where
  "tee_stream wr sw [] = (sw, [], None)"
| "tee_stream wr sw (c # cs) =
     (case Write wr sw c of (sw', n, werr) \<Rightarrow>
        (case werr of
           Some e \<Rightarrow> (sw', [c], Some e)
         | None \<Rightarrow> (case tee_stream wr sw' cs of (sw'', out, e) \<Rightarrow> (sw'', c # out, e))))"

text \<open>
  A whole exchange through the hook: the hook runs, then the body is streamed through the
  tee into the file the hook opened. The result is the file system afterwards.
\<close>

definition capture :: "path \<Rightarrow> node \<Rightarrow> Response \<Rightarrow> node" where
  "capture baseDir fs resp =
     (case WithModifyResponseToCache baseDir fs resp of
        (fs', Inl e) \<Rightarrow> fs'
      | (fs', Inr None) \<Rightarrow> fs'
      | (fs', Inr (Some f)) \<Rightarrow>
          writer (fst (tee_stream (fs_Write f) \<lparr>writer = fs', buffer = bufferPool_New\<rparr> (Body resp))))"

section \<open>The file storage (pkg/filestorage)\<close>

datatype storage_error =
    ModelNotFound string
  | ReadDirFailed errno
  | VersionFileNotFound path
  | ReadVersionFailed errno
  | ModelIndexNotFound string
  | ReadModelIndexFailed errno
  | UnmarshalFailed
  | WalkFailed errno

text \<open>
  \<^verbatim>\<open>type Model struct\<close>, the fields the storage sets (the others keep their zero
  values), and \<^verbatim>\<open>model.ModelIndexInfo\<close> of the facade. Times are numbers.
\<close>

datatype Sibling = Sibling (Rfilename: string)

record Model =
  ID :: string
  ModelID :: string
  Author :: string
  SHA :: string
  LastModified :: nat
  Disabled :: bool
  CreatedAt :: nat
  UsedStorage :: "64 word"
  Siblings :: "Sibling list"

datatype SiblingFile = SiblingFile (RFilename: string)

record ModelIndexInfo =
  info_ID :: string
  info_ModelID :: string
  info_Author :: string
  info_SHA :: string
  info_LastModified :: nat
  info_Disabled :: bool
  info_CreatedAt :: nat
  info_UsedStorage :: "64 word"
  info_Siblings :: "SiblingFile list"

text \<open>
  \<^verbatim>\<open>func NewStorage(baseDir string) (*Storage, error)\<close>: the storage works under
  \<^verbatim>\<open>baseDir/hub\<close>; below, \<^verbatim>\<open>baseDir\<close> is the \<^verbatim>\<open>s.baseDir\<close> of the storage.
\<close>

definition NewStorage :: "node \<Rightarrow> path \<Rightarrow> errno + (node \<times> path)" where
  "NewStorage fs dir =
     (let baseDir = Join dir ''hub''
      in if IsNotExist (os_Stat fs baseDir)
         then (case os_MkdirAll fs baseDir of Inl e \<Rightarrow> Inl e | Inr fs' \<Rightarrow> Inr (fs', baseDir))
         else Inr (fs, baseDir))"

text \<open>\<^verbatim>\<open>func (s *Storage) FileExists(modelID, sha, filename string) (os.FileInfo, bool)\<close>\<close>

definition FileExists :: "path \<Rightarrow> node \<Rightarrow> string \<Rightarrow> string \<Rightarrow> string \<Rightarrow> FileInfo option \<times> bool" where
  "FileExists baseDir fs modelID sha filename =
     (let modelPath = ConvertModelIDToHFPath modelID;
          filePath = Join (Join (Join (Join baseDir modelPath) ''snapshots'') sha) filename
      in (case os_Stat fs filePath of Inl err \<Rightarrow> (None, False) | Inr info \<Rightarrow> (Some info, True)))"

text \<open>\<^verbatim>\<open>func (s *Storage) ListFiles(modelID string) ([]string, error)\<close>\<close>

definition ListFiles :: "path \<Rightarrow> node \<Rightarrow> string \<Rightarrow> storage_error + string list" where
  "ListFiles baseDir fs modelID =
     (let modePath = ConvertModelIDToHFPath modelID;
          modelDir = Join baseDir modePath
      in if IsNotExist (os_Stat fs modelDir) then Inl (ModelNotFound modelID)
         else (case os_ReadDir fs modelDir of
                 Inl err \<Rightarrow> Inl (ReadDirFailed err)
               | Inr entries \<Rightarrow> Inr (map fst (filter (\<lambda>entry. \<not> is_Dir (snd entry)) entries))))"

text \<open>\<^verbatim>\<open>func (s *Storage) getRepoSha(modelID, version string) (string, error)\<close>\<close>

definition getRepoSha :: "path \<Rightarrow> node \<Rightarrow> string \<Rightarrow> string \<Rightarrow> storage_error + string" where
  "getRepoSha baseDir fs modelID version =
     (let modePath = ConvertModelIDToHFPath modelID;
          versionFilePath = Join (Join (Join baseDir modePath) ''refs'') version
      in if isl (os_Stat fs versionFilePath) then Inl (VersionFileNotFound versionFilePath)
         else (case os_ReadFile fs versionFilePath of
                 Inl err \<Rightarrow> Inl (ReadVersionFailed err)
               | Inr data \<Rightarrow> Inr data))"

text \<open>
  \<^verbatim>\<open>filepath.WalkDir(root, fn)\<close>: the callback sees the root, then every entry below
  it, a directory before its entries; the first error ends the walk. The callback of
  \<^verbatim>\<open>buildModelIndex\<close> reads only the entry (its name and its own node), so that is what
  \<^verbatim>\<open>fn\<close> is given here.
\<close>

fun walkDir :: "(string \<Rightarrow> node \<Rightarrow> 'a \<Rightarrow> errno + 'a) \<Rightarrow> string \<Rightarrow> node \<Rightarrow> 'a \<Rightarrow> errno + 'a"
  and walkDirs :: "(string \<Rightarrow> node \<Rightarrow> 'a \<Rightarrow> errno + 'a) \<Rightarrow> (string \<times> node) list \<Rightarrow> 'a \<Rightarrow> errno + 'a"
where
  "walkDir fn name d acc =
     (case fn name d acc of
        Inl err \<Rightarrow> Inl err
      | Inr acc' \<Rightarrow> (case d of Dir es \<Rightarrow> walkDirs fn es acc' | _ \<Rightarrow> Inr acc'))"
| "walkDirs fn [] acc = Inr acc"
| "walkDirs fn ((name, d) # es) acc =
     (case walkDir fn name d acc of Inl err \<Rightarrow> Inl err | Inr acc' \<Rightarrow> walkDirs fn es acc')"

definition WalkDir ::
  "node \<Rightarrow> path \<Rightarrow> (string \<Rightarrow> node \<Rightarrow> 'a \<Rightarrow> errno + 'a) \<Rightarrow> 'a \<Rightarrow> errno + 'a"
where
  "WalkDir fs root fn acc =
     (case lookup fs root of Inl err \<Rightarrow> Inl err | Inr d \<Rightarrow> walkDir fn (base_name root) d acc)"

text \<open>
  The callback of \<^verbatim>\<open>buildModelIndex\<close>, on the running \<^verbatim>\<open>(totalSize, fileList)\<close>.
\<close>

definition visit ::
  "path \<Rightarrow> node \<Rightarrow> string \<Rightarrow> path \<Rightarrow> string \<Rightarrow> node \<Rightarrow> 64 word \<times> Sibling list
     \<Rightarrow> errno + 64 word \<times> Sibling list"
where
  "visit baseDir fs modePath modelDir name d acc =
     (case acc of (totalSize, fileList) \<Rightarrow>
        if is_Dir d then Inr (totalSize, fileList)
        else
          (let info = info_of name d;
               fileList = fileList @ [Sibling name]
           in if \<not> ModeSymlink info then Inr (totalSize + Size info, fileList)
              else
                (case os_Readlink fs (Join modelDir name) of
                   Inl err \<Rightarrow> Inl err
                 | Inr target \<Rightarrow>
                     (let etag = Split_file target;
                          absPath = Join (Join (Join baseDir modePath) ''blobs'') etag
                      in (case os_Stat fs absPath of
                            Inl err \<Rightarrow> Inl err
                          | Inr targetInfo \<Rightarrow> Inr (totalSize + Size targetInfo, fileList))))))"

text \<open>
  \<^verbatim>\<open>func (s *Storage) buildModelIndex(modelID, version string) (*Model, error)\<close>;
  \<^verbatim>\<open>now\<close> is what \<^verbatim>\<open>time.Now().UTC()\<close> returns.
\<close>

definition buildModelIndex ::
  "path \<Rightarrow> node \<Rightarrow> nat \<Rightarrow> string \<Rightarrow> string \<Rightarrow> storage_error + Model"
where
  "buildModelIndex baseDir fs now modelID version =
     (let author = (case split_slash modelID of [] \<Rightarrow> [] | a # _ \<Rightarrow> a);
          modePath = ConvertModelIDToHFPath modelID
      in (case getRepoSha baseDir fs modelID version of
            Inl err \<Rightarrow> Inl err
          | Inr sha \<Rightarrow>
              (let modelDir = Join (Join (Join baseDir modePath) ''snapshots'') sha
               in (case WalkDir fs modelDir (visit baseDir fs modePath modelDir) (0, []) of
                     Inl err \<Rightarrow> Inl (WalkFailed err)
                   | Inr (totalSize, fileList) \<Rightarrow>
                       Inr \<lparr>ID = modelID, ModelID = modelID, Author = author, SHA = sha,
                            LastModified = now, Disabled = False, CreatedAt = now,
                            UsedStorage = totalSize, Siblings = fileList\<rparr>))))"

text \<open>
  \<^verbatim>\<open>func (s *Storage) RepoInfo(modelID, version string) (*Model, error)\<close>;
  \<^verbatim>\<open>unmarshal\<close> stands for \<^verbatim>\<open>json.Unmarshal\<close> into a \<^verbatim>\<open>Model\<close>.
\<close>

definition RepoInfo ::
  "path \<Rightarrow> node \<Rightarrow> nat \<Rightarrow> (bytes \<Rightarrow> Model option) \<Rightarrow> string \<Rightarrow> string \<Rightarrow> storage_error + Model"
where
  "RepoInfo baseDir fs now unmarshal modelID version =
     (let modePath = ConvertModelIDToHFPath modelID;
          modelIndexPath = Join (Join baseDir modePath) ''.modeindex''
      in (case os_Stat fs modelIndexPath of
            Inl err \<Rightarrow>
              (if err = ENOENT then buildModelIndex baseDir fs now modelID version
               else Inl (ModelIndexNotFound modelID))
          | Inr info \<Rightarrow>
              (case os_ReadFile fs modelIndexPath of
                 Inl err \<Rightarrow> Inl (ReadModelIndexFailed err)
               | Inr data \<Rightarrow>
                   (case unmarshal data of
                      None \<Rightarrow> Inl UnmarshalFailed
                    | Some model \<Rightarrow> Inr model))))"

text \<open>
  \<^verbatim>\<open>func (s *Storage) FileEtag(modelID, sha, filename string) string\<close>; \<^verbatim>\<open>cwd\<close> is the
  working directory \<^verbatim>\<open>filepath.Abs\<close> reads.
\<close>

definition FileEtag :: "path \<Rightarrow> path \<Rightarrow> node \<Rightarrow> string \<Rightarrow> string \<Rightarrow> string \<Rightarrow> string" where
  "FileEtag cwd baseDir fs modelID sha filename =
     (let modelPath = ConvertModelIDToHFPath modelID;
          filePath = Join (Join (Join (Join baseDir modelPath) ''snapshots'') sha) filename
      in (case os_Readlink fs filePath of
            Inl err \<Rightarrow> []
          | Inr targetPath \<Rightarrow> Split_file (Abs cwd targetPath)))"

section \<open>The distribution facade (pkg/filestorage, Distribution)\<close>

text \<open>\<^verbatim>\<open>func (d *Distribution) ListFiles(modelID string) ([]string, error)\<close>\<close>

definition Distribution_ListFiles :: "path \<Rightarrow> node \<Rightarrow> string \<Rightarrow> storage_error + string list" where
  "Distribution_ListFiles baseDir fs modelID = ListFiles baseDir fs modelID"

text \<open>\<^verbatim>\<open>func (d *Distribution) GetStorageInfo(modelID string) (int64, error)\<close>\<close>

definition GetStorageInfo :: "path \<Rightarrow> node \<Rightarrow> string \<Rightarrow> storage_error + 64 word" where
  "GetStorageInfo baseDir fs modelID =
     (let modelDir = Join baseDir modelID
      in if IsNotExist (os_Stat fs modelDir) then Inl (ModelNotFound modelID)
         else (case Distribution_ListFiles baseDir fs modelID of
                 Inl err \<Rightarrow> Inl err
               | Inr files \<Rightarrow>
                   Inr (foldl (\<lambda>totalSize file.
                                 (case os_Stat fs (Join modelDir file) of
                                    Inl err \<Rightarrow> totalSize
                                  | Inr info \<Rightarrow> totalSize + Size info))
                          0 files)))"

text \<open>
  \<^verbatim>\<open>func (d *Distribution) RepoInfo(modelID, version string) (model.ModelIndexInfo, error)\<close>
\<close>

definition Distribution_RepoInfo ::
  "path \<Rightarrow> node \<Rightarrow> nat \<Rightarrow> (bytes \<Rightarrow> Model option) \<Rightarrow> string \<Rightarrow> string
     \<Rightarrow> storage_error + ModelIndexInfo"
where
  "Distribution_RepoInfo baseDir fs now unmarshal modelID version =
     (case RepoInfo baseDir fs now unmarshal modelID version of
        Inl err \<Rightarrow> Inl err
      | Inr mode \<Rightarrow>
          Inr \<lparr>info_ID = ID mode, info_ModelID = ModelID mode, info_Author = Author mode,
               info_SHA = SHA mode, info_LastModified = LastModified mode,
               info_Disabled = Disabled mode, info_CreatedAt = CreatedAt mode,
               info_UsedStorage = UsedStorage mode,
               info_Siblings = map (\<lambda>sibling. SiblingFile (Rfilename sibling)) (Siblings mode)\<rparr>)"

text \<open>\<^verbatim>\<open>func (d *Distribution) FileExists(modelID, sha, filename string) (os.FileInfo, bool)\<close>\<close>

definition Distribution_FileExists ::
  "path \<Rightarrow> node \<Rightarrow> string \<Rightarrow> string \<Rightarrow> string \<Rightarrow> FileInfo option \<times> bool"
where
  "Distribution_FileExists baseDir fs modelID sha filename =
     FileExists baseDir fs modelID sha filename"

text \<open>\<^verbatim>\<open>func (d *Distribution) FileEtag(modelID, sha, filename string) string\<close>\<close>

definition Distribution_FileEtag :: "path \<Rightarrow> path \<Rightarrow> node \<Rightarrow> string \<Rightarrow> string \<Rightarrow> string \<Rightarrow> string" where
  "Distribution_FileEtag cwd baseDir fs modelID sha filename =
     FileEtag cwd baseDir fs modelID sha filename"

text \<open>\<^verbatim>\<open>func (d *Distribution) RepoSha(modelID, version string) string\<close>\<close>

definition RepoSha :: "path \<Rightarrow> node \<Rightarrow> string \<Rightarrow> string \<Rightarrow> string" where
  "RepoSha baseDir fs modelID version =
     (case getRepoSha baseDir fs modelID version of Inl err \<Rightarrow> version | Inr sha \<Rightarrow> sha)"

section \<open>Well-formed names\<close>

text \<open>
  The name of a directory entry is a single path component: not empty, not \<^verbatim>\<open>.\<close> or
  \<^verbatim>\<open>..\<close>, and without a separator. Every name a real directory holds is of this kind.
\<close>

definition valid_name :: "string \<Rightarrow> bool" where
  "valid_name c \<longleftrightarrow> c \<noteq> [] \<and> c \<noteq> ''.'' \<and> c \<noteq> ''..'' \<and> CHR ''/'' \<notin> set c"

section \<open>Example caches\<close>

text \<open>
  The cache of \<^verbatim>\<open>acme/foo\<close> under \<^verbatim>\<open>/cache/hub\<close> with one snapshot entry
  \<^verbatim>\<open>snapshots/abc123/config.json\<close>, a link to \<^verbatim>\<open>../../blobs/deadbeef\<close>: once with that
  blob, once without it.
\<close>

definition cache_with_blob :: node where
  "cache_with_blob =
     Dir [(''cache'', Dir [(''hub'', Dir [(''models--acme--foo'',
       Dir [(''blobs'', Dir [(''deadbeef'', File ''{}'')]),
            (''snapshots'', Dir [(''abc123'', Dir [(''config.json'',
               Symlink ''../../blobs/deadbeef'')])])])])])]"

definition cache_without_blob :: node where
  "cache_without_blob =
     Dir [(''cache'', Dir [(''hub'', Dir [(''models--acme--foo'',
       Dir [(''blobs'', Dir []),
            (''snapshots'', Dir [(''abc123'', Dir [(''config.json'',
               Symlink ''../../blobs/deadbeef'')])])])])])]"

text \<open>
  The same cache after an index capture as well: a \<^verbatim>\<open>.modeindex\<close> and the ref
  \<^verbatim>\<open>refs/main\<close> holding \<^verbatim>\<open>abc123\<close>.
\<close>

definition cache_with_index :: node where
  "cache_with_index =
     Dir [(''cache'', Dir [(''hub'', Dir [(''models--acme--foo'',
       Dir [(''.modeindex'', File ''index''),
            (''blobs'', Dir [(''deadbeef'', File ''{}'')]),
            (''refs'', Dir [(''main'', File ''abc123'')]),
            (''snapshots'', Dir [(''abc123'', Dir [(''config.json'',
               Symlink ''../../blobs/deadbeef'')])])])])])]"

definition cache_without_blob_with_index :: node where
  "cache_without_blob_with_index =
     Dir [(''cache'', Dir [(''hub'', Dir [(''models--acme--foo'',
       Dir [(''.modeindex'', File ''index''),
            (''blobs'', Dir []),
            (''refs'', Dir [(''main'', File ''abc123'')]),
            (''snapshots'', Dir [(''abc123'', Dir [(''config.json'',
               Symlink ''../../blobs/deadbeef'')])])])])])]"

section \<open>What the synthesized index should hold\<close>

text \<open>
  These definitions follow the specification, not the code. The resolved size of an
  entry \<^verbatim>\<open>name\<close> of the snapshot directory \<^verbatim>\<open>dir\<close>: its own size if it is a plain
  file, the size of the blob it points to if it is a link. An entry resolves when it is a
  plain file, or a link that points to a file lying directly under \<^verbatim>\<open>blobs\<close> of the
  model directory \<^verbatim>\<open>repo\<close> under the name its target ends in (the layout of the
  cache: \<^verbatim>\<open>snapshots/<sha>/<filename>\<close> is an indirection to
  \<^verbatim>\<open>../../blobs/<content-id>\<close>).
\<close>

definition blob_of :: "path \<Rightarrow> string \<Rightarrow> path" where
  "blob_of repo t = Join (repo @ [''blobs'']) (Split_file t)"

fun resolved_size :: "node \<Rightarrow> path \<Rightarrow> string \<times> node \<Rightarrow> nat" where
  "resolved_size fs dir (name, File b) = length b"
| "resolved_size fs dir (name, Symlink t) =
     (case lookup fs (target_path (dir @ [name]) t) of Inr (File blob) \<Rightarrow> length blob | _ \<Rightarrow> 0)"
| "resolved_size fs dir (name, Dir es) = 0"

fun resolves :: "node \<Rightarrow> path \<Rightarrow> path \<Rightarrow> string \<times> node \<Rightarrow> bool" where
  "resolves fs repo dir (name, File b) = True"
| "resolves fs repo dir (name, Symlink t) =
     (target_path (dir @ [name]) t = blob_of repo t \<and>
      (case lookup fs (target_path (dir @ [name]) t) of Inr (File blob) \<Rightarrow> True | _ \<Rightarrow> False))"
| "resolves fs repo dir (name, Dir es) = False"

text \<open>A link whose blob, directly under \<^verbatim>\<open>blobs\<close>, is missing.\<close>

fun dangling :: "node \<Rightarrow> path \<Rightarrow> path \<Rightarrow> string \<times> node \<Rightarrow> bool" where
  "dangling fs repo dir (name, Symlink t) =
     (target_path (dir @ [name]) t = blob_of repo t \<and> isl (lookup fs (target_path (dir @ [name]) t)))"
| "dangling fs repo dir (name, d) = False"

text \<open>
  The example cache with the ref \<^verbatim>\<open>refs/main\<close> and no \<^verbatim>\<open>.modeindex\<close>, its
  snapshot holding a plain file next to the link: once with the blob, once without.
\<close>

definition cache_with_ref :: node where
  "cache_with_ref =
     Dir [(''cache'', Dir [(''hub'', Dir [(''models--acme--foo'',
       Dir [(''blobs'', Dir [(''deadbeef'', File ''{}'')]),
            (''refs'', Dir [(''main'', File ''abc123'')]),
            (''snapshots'', Dir [(''abc123'',
               Dir [(''README.md'', File ''hello''),
                    (''config.json'', Symlink ''../../blobs/deadbeef'')])])])])])]"

definition cache_with_ref_without_blob :: node where
  "cache_with_ref_without_blob =
     Dir [(''cache'', Dir [(''hub'', Dir [(''models--acme--foo'',
       Dir [(''blobs'', Dir []),
            (''refs'', Dir [(''main'', File ''abc123'')]),
            (''snapshots'', Dir [(''abc123'',
               Dir [(''README.md'', File ''hello''),
                    (''config.json'', Symlink ''../../blobs/deadbeef'')])])])])])]"

section \<open>Example exchanges\<close>

text \<open>
  The index response of the scenario: \<^verbatim>\<open>GET /api/models/acme/foo/revision/main\<close>
  answered with header \<^verbatim>\<open>x-repo-commit: abc123\<close>, the body arriving in two reads.
\<close>

definition index_response :: Response where
  "index_response =
     \<lparr>Method = ''GET'',
      Vars = [''model_id'' \<mapsto> ''acme/foo'', ''version'' \<mapsto> ''main''],
      Header = [''x-repo-commit'' \<mapsto> ''abc123''],
      Body = [''{id: '', ''acme/foo}'']\<rparr>"

text \<open>
  A file response, \<^verbatim>\<open>GET /acme/foo/resolve/abc123/config.json\<close>, whose only entity tag
  is a weak one: \<^verbatim>\<open>etag: W/"deadbeef"\<close>.
\<close>

definition weak_etag_response :: Response where
  "weak_etag_response =
     \<lparr>Method = ''GET'',
      Vars = [''model_id'' \<mapsto> ''acme/foo'', ''sha'' \<mapsto> ''abc123'',
              ''filename'' \<mapsto> ''config.json''],
      Header = [''x-repo-commit'' \<mapsto> ''abc123'',
                ''etag'' \<mapsto> [CHR ''W'', CHR ''/'', CHR 0x22] @ ''deadbeef'' @ [CHR 0x22]],
      Body = [''{}'']\<rparr>"

text \<open>
  A cache where an upload through \<^verbatim>\<open>StoreFile\<close> has made the directory
  \<^verbatim>\<open>hub/acme/foo\<close> next to the encoded model directory.
\<close>

definition cache_with_upload :: node where
  "cache_with_upload =
     Dir [(''cache'', Dir [(''hub'',
       Dir [(''acme'', Dir [(''foo'', Dir [(''weights.bin'', File ''0123456789'')])]),
            (''models--acme--foo'', Dir [(''.modeindex'', File ''index'')])])])]"

section \<open>Properties of the path codec\<close>

lemma ReplaceAll_slash:
  "ReplaceAll s ''/'' ''--'' = concat (map (\<lambda>c. if c = CHR ''/'' then ''--'' else [c]) s)"
  by (induction s) auto

lemma undash_ReplaceAll: "dash_safe s \<Longrightarrow> undash (ReplaceAll s ''/'' ''--'') = s"
  by (induction s rule: dash_safe.induct) auto

text \<open>
  C5 (as amended). The encoding is the fixed prefix \<^verbatim>\<open>models--\<close> followed by the
  identifier with every \<^verbatim>\<open>/\<close> replaced by \<^verbatim>\<open>--\<close>; the result holds no
  \<^verbatim>\<open>/\<close>, so it is one flat directory name; and two distinct identifiers in which no
  dash is immediately followed by a dash or by \<^verbatim>\<open>/\<close> have distinct encodings.
\<close>

theorem ConvertModelIDToHFPath_injective_dash_safe:
  "ConvertModelIDToHFPath x =
     ''models--'' @ concat (map (\<lambda>c. if c = CHR ''/'' then ''--'' else [c]) x)
   \<and> CHR ''/'' \<notin> set (ConvertModelIDToHFPath x)
   \<and> (dash_safe x \<and> dash_safe y \<and> x \<noteq> y
        \<longrightarrow> ConvertModelIDToHFPath x \<noteq> ConvertModelIDToHFPath y)"
proof (intro conjI impI)
  show "ConvertModelIDToHFPath x =
     ''models--'' @ concat (map (\<lambda>c. if c = CHR ''/'' then ''--'' else [c]) x)"
    by (simp add: ConvertModelIDToHFPath_def ReplaceAll_slash)
  show "CHR ''/'' \<notin> set (ConvertModelIDToHFPath x)"
    by (auto simp: ConvertModelIDToHFPath_def ReplaceAll_slash split: if_splits)
  assume h: "dash_safe x \<and> dash_safe y \<and> x \<noteq> y"
  show "ConvertModelIDToHFPath x \<noteq> ConvertModelIDToHFPath y"
  proof
    assume "ConvertModelIDToHFPath x = ConvertModelIDToHFPath y"
    then have "ReplaceAll x ''/'' ''--'' = ReplaceAll y ''/'' ''--''"
      by (simp add: ConvertModelIDToHFPath_def)
    then have "undash (ReplaceAll x ''/'' ''--'') = undash (ReplaceAll y ''/'' ''--'')"
      by simp
    with h show False
      by (simp add: undash_ReplaceAll)
  qed
qed

theorem ConvertModelIDToHFPath_injective_dash_safe_witness:
  "ConvertModelIDToHFPath ''Qwen/Qwen2-0.5B-Instruct'' = ''models--Qwen--Qwen2-0.5B-Instruct''
   \<and> dash_safe ''Qwen/Qwen2-0.5B-Instruct'' \<and> dash_safe ''Qwen/Qwen2-0.5B''
   \<and> ConvertModelIDToHFPath ''Qwen/Qwen2-0.5B-Instruct'' \<noteq> ConvertModelIDToHFPath ''Qwen/Qwen2-0.5B''"
proof -
  have d: "dash_safe ''Qwen/Qwen2-0.5B-Instruct'' \<and> dash_safe ''Qwen/Qwen2-0.5B''
           \<and> ''Qwen/Qwen2-0.5B-Instruct'' \<noteq> ''Qwen/Qwen2-0.5B''"
    by simp
  have e: "ConvertModelIDToHFPath ''Qwen/Qwen2-0.5B-Instruct'' = ''models--Qwen--Qwen2-0.5B-Instruct''"
    by (simp add: ConvertModelIDToHFPath_def)
  from d ConvertModelIDToHFPath_injective_dash_safe
          [of "''Qwen/Qwen2-0.5B-Instruct''" "''Qwen/Qwen2-0.5B''"]
  have "ConvertModelIDToHFPath ''Qwen/Qwen2-0.5B-Instruct'' \<noteq> ConvertModelIDToHFPath ''Qwen/Qwen2-0.5B''"
    by blast
  with d e show ?thesis by blast
qed

text \<open>
  C5 (as stated) fails: \<^verbatim>\<open>a-/b\<close> and \<^verbatim>\<open>a/-b\<close> are distinct identifiers with one
  separator each, between a non-empty owner and a non-empty name, and both are encoded as
  \<^verbatim>\<open>models--a---b\<close>; so are \<^verbatim>\<open>a--b/c\<close> and \<^verbatim>\<open>a/b--c\<close>, both encoded as
  \<^verbatim>\<open>models--a--b--c\<close>.
\<close>

theorem ConvertModelIDToHFPath_collision:
  "owner_name_id ''a-/b'' \<and> owner_name_id ''a/-b'' \<and> ''a-/b'' \<noteq> ''a/-b''
   \<and> ConvertModelIDToHFPath ''a-/b'' = ''models--a---b''
   \<and> ConvertModelIDToHFPath ''a/-b'' = ''models--a---b''
   \<and> owner_name_id ''a--b/c'' \<and> owner_name_id ''a/b--c'' \<and> ''a--b/c'' \<noteq> ''a/b--c''
   \<and> ConvertModelIDToHFPath ''a--b/c'' = ''models--a--b--c''
   \<and> ConvertModelIDToHFPath ''a/b--c'' = ''models--a--b--c''"
  by (simp add: owner_name_id_def ConvertModelIDToHFPath_def)


section \<open>Properties of the tee writer\<close>

declare Write_loop.simps [simp del]









section \<open>Paths and the file system\<close>

lemma split_slash_no_slash: "CHR ''/'' \<notin> set s \<Longrightarrow> split_slash s = [s]"
  by (induction s) auto

lemma Join_valid_name: "valid_name c \<Longrightarrow> Join dir c = dir @ [c]"
  by (simp add: Join_def valid_name_def split_slash_no_slash clean_step_def)

lemma valid_name_ConvertModelIDToHFPath: "valid_name (ConvertModelIDToHFPath modelID)"
  by (auto simp: valid_name_def ConvertModelIDToHFPath_def ReplaceAll_slash split: if_splits)

lemma Join_ConvertModelIDToHFPath [simp]:
  "Join dir (ConvertModelIDToHFPath modelID) = dir @ [ConvertModelIDToHFPath modelID]"
  by (simp add: Join_valid_name valid_name_ConvertModelIDToHFPath)

lemma Join_literals [simp]:
  "Join dir ''refs'' = dir @ [''refs'']"
  "Join dir ''blobs'' = dir @ [''blobs'']"
  "Join dir ''snapshots'' = dir @ [''snapshots'']"
  "Join dir ''.modeindex'' = dir @ [''.modeindex'']"
  "Join dir ''hub'' = dir @ [''hub'']"
  by (simp_all add: Join_valid_name valid_name_def)

lemma lookup_append:
  "lookup fs (p @ q) = (case lookup fs p of Inl e \<Rightarrow> Inl e | Inr n \<Rightarrow> lookup n q)"
  by (induction fs p rule: lookup.induct) (auto split: option.splits)

lemma lookup_entry:
  "lookup fs p = Inr (Dir es) \<Longrightarrow>
   lookup fs (p @ [c]) = (case map_of es c of None \<Rightarrow> Inl ENOENT | Some m \<Rightarrow> Inr m)"
  by (simp add: lookup_append split: option.splits)

lemma MAXSYMLINKS_Suc: "MAXSYMLINKS = Suc 39"
  by (simp add: MAXSYMLINKS_def)

lemma resolve_error: "lookup fs p = Inl e \<Longrightarrow> resolve fs fuel p = Inl e"
  by (cases fuel) auto

lemma resolve_not_link:
  "lookup fs p = Inr n \<Longrightarrow> \<not> is_Symlink n \<Longrightarrow> resolve fs fuel p = Inr (p, n)"
  by (cases fuel; cases n) auto

lemma resolve_link:
  "lookup fs p = Inr (Symlink t) \<Longrightarrow> resolve fs (Suc fuel) p = resolve fs fuel (target_path p t)"
  by simp

lemma os_Stat_error: "lookup fs p = Inl e \<Longrightarrow> os_Stat fs p = Inl e"
  by (simp add: os_Stat_def resolve_error)

lemma os_Stat_not_link:
  "lookup fs p = Inr n \<Longrightarrow> \<not> is_Symlink n \<Longrightarrow> os_Stat fs p = Inr (info_of (base_name p) n)"
  by (simp add: os_Stat_def resolve_not_link)

lemma os_ReadFile_error: "lookup fs p = Inl e \<Longrightarrow> os_ReadFile fs p = Inl e"
  by (simp add: os_ReadFile_def resolve_error)

lemma os_ReadFile_File: "lookup fs p = Inr (File b) \<Longrightarrow> os_ReadFile fs p = Inr b"
  by (simp add: os_ReadFile_def resolve_not_link)

lemma os_ReadFile_Dir: "lookup fs p = Inr (Dir es) \<Longrightarrow> os_ReadFile fs p = Inl EISDIR"
  by (simp add: os_ReadFile_def resolve_not_link)

lemma os_ReadFile_ok_Stat_ok: "os_ReadFile fs p = Inr b \<Longrightarrow> \<not> isl (os_Stat fs p)"
  by (auto simp: os_ReadFile_def os_Stat_def split: sum.splits)

lemma RepoSha_eq:
  "RepoSha baseDir fs modelID version =
     (case os_ReadFile fs (Join (baseDir @ [ConvertModelIDToHFPath modelID, ''refs'']) version) of
        Inl e \<Rightarrow> version | Inr sha \<Rightarrow> sha)"
  by (auto simp: RepoSha_def getRepoSha_def Let_def os_ReadFile_ok_Stat_ok split: sum.splits)


lemma resolve_numeral [simp]:
  "resolve fs (numeral k) p =
     (case lookup fs p of
        Inl e \<Rightarrow> Inl e
      | Inr (Symlink t) \<Rightarrow> resolve fs (pred_numeral k) (target_path p t)
      | Inr n \<Rightarrow> Inr (p, n))"
  by (simp add: numeral_eq_Suc)

lemma create_at_numeral [simp]:
  "create_at fs (numeral k) p =
     (case lookup fs p of
        Inr (Symlink t) \<Rightarrow> create_at fs (pred_numeral k) (target_path p t)
      | Inr (Dir es) \<Rightarrow> Inl EISDIR
      | Inr (File b) \<Rightarrow> truncate_at fs p
      | Inl e \<Rightarrow> (if e = ENOENT then truncate_at fs p else Inl e))"
  by (simp add: numeral_eq_Suc)

lemma os_Stat_link_File:
  "lookup fs p = Inr (Symlink t) \<Longrightarrow> lookup fs (target_path p t) = Inr n \<Longrightarrow> \<not> is_Symlink n \<Longrightarrow>
   os_Stat fs p = Inr (info_of (base_name p) n)"
  by (cases n) (simp_all add: os_Stat_def MAXSYMLINKS_def)

lemma os_Stat_link_dangling:
  "lookup fs p = Inr (Symlink t) \<Longrightarrow> lookup fs (target_path p t) = Inl e \<Longrightarrow>
   os_Stat fs p = Inl e"
  by (simp add: os_Stat_def MAXSYMLINKS_def resolve_error)


lemma split_slash_not_Nil [simp]: "split_slash s \<noteq> []"
  by (induction s) (auto split: list.splits)









lemma map_of_set_entry: "map_of (set_entry c m es) = (map_of es)(c \<mapsto> m)"
  by (induction es) (auto simp: fun_eq_iff)

lemma update_entry:
  "lookup fs p = Inr (Dir es) \<Longrightarrow> update fs (p @ [c]) (Some n) = Inr fs' \<Longrightarrow>
   lookup fs' p = Inr (Dir (set_entry c n es))"
proof (induction p arbitrary: fs fs')
  case Nil
  then show ?case by auto
next
  case (Cons d ds)
  then obtain es0 where fs: "fs = Dir es0" by (cases fs) auto
  with Cons.prems obtain m where m: "map_of es0 d = Some m" and lm: "lookup m ds = Inr (Dir es)"
    by (auto split: option.splits)
  from Cons.prems(2) fs m obtain m' where
    u: "update m (ds @ [c]) (Some n) = Inr m'" and fs': "fs' = Dir (set_entry d m' es0)"
    by (cases "ds @ [c]") (auto split: sum.splits)
  from Cons.IH [OF lm u] fs' show ?case
    by (simp add: map_of_set_entry)
qed

lemma files_set_entry_Dir:
  "map_of es c = Some (Dir ses) \<Longrightarrow>
   map fst (filter (\<lambda>entry. \<not> is_Dir (snd entry)) (set_entry c (Dir ses') es))
     = map fst (filter (\<lambda>entry. \<not> is_Dir (snd entry)) es)"
  by (induction es) (auto split: if_splits)

lemma os_ReadDir_Dir: "lookup fs p = Inr (Dir es) \<Longrightarrow> os_ReadDir fs p = Inr es"
  by (simp add: os_ReadDir_def MAXSYMLINKS_def)

lemma ListFiles_Dir:
  "lookup fs (baseDir @ [ConvertModelIDToHFPath modelID]) = Inr (Dir es) \<Longrightarrow>
   ListFiles baseDir fs modelID = Inr (map fst (filter (\<lambda>entry. \<not> is_Dir (snd entry)) es))"
  by (simp add: ListFiles_def os_ReadDir_Dir os_Stat_not_link)


lemma hd_split_slash:
  "(case split_slash s of [] \<Rightarrow> [] | a # _ \<Rightarrow> a) = takeWhile (\<lambda>c. c \<noteq> CHR ''/'') s"
  by (induction s) (auto split: list.splits)

lemma walkDirs_named:
  assumes "\<And>name d t fl. (name, d) \<in> set xs \<Longrightarrow>
             fn name d (t, fl) = Inr (t + of_nat (sz (name, d)), fl @ [Sibling name])"
    and "list_all (\<lambda>entry. \<not> is_Dir (snd entry)) xs"
  shows "walkDirs fn xs (t, fl)
           = Inr (t + (of_nat (sum_list (map (\<lambda>entry. sz (fst entry, snd entry)) xs)) :: 64 word),
                  fl @ map (\<lambda>entry. Sibling (fst entry)) xs)"
  using assms
proof (induction xs arbitrary: t fl)
  case Nil
  then show ?case by simp
next
  case (Cons x xs)
  obtain name d where x: "x = (name, d)" by (cases x)
  from Cons.prems(2) x have nd: "\<not> is_Dir d" by simp
  have v: "fn name d (t, fl) = Inr (t + of_nat (sz (name, d)), fl @ [Sibling name])"
    using Cons.prems(1) x by simp
  have w: "walkDir fn name d (t, fl) = Inr (t + of_nat (sz (name, d)), fl @ [Sibling name])"
    using v nd by (cases d) simp_all
  have "walkDirs fn xs (t + of_nat (sz (name, d)), fl @ [Sibling name])
          = Inr (t + of_nat (sz (name, d))
                   + of_nat (sum_list (map (\<lambda>entry. sz (fst entry, snd entry)) xs)),
                 (fl @ [Sibling name]) @ map (\<lambda>entry. Sibling (fst entry)) xs)"
    using Cons.prems by (intro Cons.IH) auto
  with w x show ?case by (simp add: add.assoc)
qed

lemma walkDirs_error:
  assumes "(name, d) \<in> set xs" "\<And>acc. isl (fn name d acc)"
    and "list_all (\<lambda>entry. \<not> is_Dir (snd entry)) xs"
  shows "isl (walkDirs fn xs acc)"
  using assms(1,3)
proof (induction xs arbitrary: acc)
  case Nil
  then show ?case by simp
next
  case (Cons x xs)
  obtain n m where x: "x = (n, m)" by (cases x)
  from Cons.prems(2) x have nd: "\<not> is_Dir m" by simp
  show ?case
  proof (cases "fn n m acc")
    case (Inl e)
    with x show ?thesis by simp
  next
    case (Inr acc')
    with x assms(2) [of acc] have "(name, d) \<noteq> (n, m)" by auto
    with Cons.prems x have "(name, d) \<in> set xs" by auto
    from Cons.IH [OF this] Cons.prems(2) have "isl (walkDirs fn xs acc')" by simp
    with Inr x nd show ?thesis by (cases m) simp_all
  qed
qed

lemma lookup_member:
  assumes "lookup fs p = Inr (Dir es)" "distinct (map fst es)" "(name, d) \<in> set es"
    "valid_name name"
  shows "lookup fs (Join p name) = Inr d"
  using assms by (simp add: Join_valid_name lookup_entry)

lemma visit_resolves:
  assumes "lookup fs modelDir = Inr (Dir es)" "distinct (map fst es)" "(name, d) \<in> set es"
    "valid_name name" "resolves fs (baseDir @ [modePath]) modelDir (name, d)"
    and mp: "Join baseDir modePath = baseDir @ [modePath]"
  shows "visit baseDir fs modePath modelDir name d (t, fl)
           = Inr (t + of_nat (resolved_size fs modelDir (name, d)), fl @ [Sibling name])"
proof (cases d)
  case (File b)
  then show ?thesis by (simp add: visit_def info_of_def)
next
  case (Symlink tg)
  with assms(5) obtain blob where
    tp: "target_path (modelDir @ [name]) tg = blob_of (baseDir @ [modePath]) tg"
    and b: "lookup fs (blob_of (baseDir @ [modePath]) tg) = Inr (File blob)"
    by (auto split: sum.splits node.splits)
  have r: "os_Readlink fs (Join modelDir name) = Inr tg"
    using lookup_member [OF assms(1-4)] Symlink by (simp add: os_Readlink_def)
  have st: "os_Stat fs (Join (Join (Join baseDir modePath) ''blobs'') (Split_file tg))
              = Inr (info_of (base_name (blob_of (baseDir @ [modePath]) tg)) (File blob))"
    using b mp by (simp add: blob_of_def os_Stat_not_link)
  show ?thesis
    using Symlink r st b tp by (simp add: visit_def info_of_def)
next
  case (Dir x3)
  with assms(5) show ?thesis by simp
qed

lemma visit_dangling:
  assumes "lookup fs modelDir = Inr (Dir es)" "distinct (map fst es)"
    "(name, d) \<in> set es" "valid_name name"
    and mp: "Join baseDir modePath = baseDir @ [modePath]"
    and "dangling fs (baseDir @ [modePath]) modelDir (name, d)"
  shows "isl (visit baseDir fs modePath modelDir name d acc)"
proof -
  from assms(6) obtain tg where d: "d = Symlink tg"
    and i: "isl (lookup fs (blob_of (baseDir @ [modePath]) tg))"
    by (cases d) auto
  from i obtain e where e: "lookup fs (blob_of (baseDir @ [modePath]) tg) = Inl e"
    by (cases "lookup fs (blob_of (baseDir @ [modePath]) tg)") auto
  have r: "os_Readlink fs (Join modelDir name) = Inr tg"
    using lookup_member [OF assms(1-4)] d by (simp add: os_Readlink_def)
  have st: "os_Stat fs (Join (Join (Join baseDir modePath) ''blobs'') (Split_file tg)) = Inl e"
    using e mp by (simp add: blob_of_def os_Stat_error)
  show ?thesis
    using r st d by (cases acc) (simp add: visit_def info_of_def)
qed

lemma sint_of_nat_int64:
  "n < 2 ^ 63 \<Longrightarrow> sint (of_nat n :: 64 word) = int n"
  by (simp add: signed_of_nat signed_take_bit_int_eq_self)


section \<open>The revision resolver\<close>

text \<open>
  C3. \<^verbatim>\<open>RepoSha\<close> returns what the ref file \<^verbatim>\<open>refs/<token>\<close> holds whenever that
  file can be read, and the token itself whenever it cannot: in particular the content of
  a regular file there, and the token when nothing is there or a directory is.
\<close>

theorem RepoSha_ref_or_token:
  fixes baseDir fs modelID version
  defines "ref \<equiv> Join (baseDir @ [ConvertModelIDToHFPath modelID, ''refs'']) version"
  shows "(os_ReadFile fs ref = Inr sha \<longrightarrow> RepoSha baseDir fs modelID version = sha)
       \<and> (isl (os_ReadFile fs ref) \<longrightarrow> RepoSha baseDir fs modelID version = version)
       \<and> (lookup fs ref = Inr (File sha) \<longrightarrow> RepoSha baseDir fs modelID version = sha)
       \<and> (isl (lookup fs ref) \<longrightarrow> RepoSha baseDir fs modelID version = version)
       \<and> (lookup fs ref = Inr (Dir es) \<longrightarrow> RepoSha baseDir fs modelID version = version)"
proof -
  have e: "isl (lookup fs ref) \<Longrightarrow> isl (os_ReadFile fs ref)"
    by (cases "lookup fs ref") (auto simp: os_ReadFile_error)
  have r: "RepoSha baseDir fs modelID version =
             (case os_ReadFile fs ref of Inl e \<Rightarrow> version | Inr sha \<Rightarrow> sha)"
    by (simp add: RepoSha_eq ref_def)
  show ?thesis
    using e by (auto simp: r os_ReadFile_File os_ReadFile_Dir split: sum.splits)
qed

theorem RepoSha_ref_or_token_witness:
  "lookup (Dir [(''cache'', Dir [(''hub'', Dir [(''models--acme--foo'',
        Dir [(''refs'', Dir [(''main'', File ''abc123'')])])])])])
      (Join ([''cache'', ''hub''] @ [ConvertModelIDToHFPath ''acme/foo'', ''refs'']) ''main'')
     = Inr (File ''abc123'')
   \<and> RepoSha [''cache'', ''hub'']
        (Dir [(''cache'', Dir [(''hub'', Dir [(''models--acme--foo'',
           Dir [(''refs'', Dir [(''main'', File ''abc123'')])])])])])
        ''acme/foo'' ''main'' = ''abc123''
   \<and> isl (lookup (Dir [(''cache'', Dir [(''hub'', Dir [(''models--acme--foo'',
        Dir [(''refs'', Dir [(''main'', File ''abc123'')])])])])])
      (Join ([''cache'', ''hub''] @ [ConvertModelIDToHFPath ''acme/foo'', ''refs'']) ''abc123''))
   \<and> RepoSha [''cache'', ''hub'']
        (Dir [(''cache'', Dir [(''hub'', Dir [(''models--acme--foo'',
           Dir [(''refs'', Dir [(''main'', File ''abc123'')])])])])])
        ''acme/foo'' ''abc123'' = ''abc123''"
proof -
  let ?fs = "Dir [(''cache'', Dir [(''hub'', Dir [(''models--acme--foo'',
        Dir [(''refs'', Dir [(''main'', File ''abc123'')])])])])]"
  let ?refs = "[''cache'', ''hub''] @ [ConvertModelIDToHFPath ''acme/foo'', ''refs'']"
  have m: "lookup ?fs (Join ?refs ''main'') = Inr (File ''abc123'')"
    by (simp add: ConvertModelIDToHFPath_def Join_def clean_step_def)
  have a: "isl (lookup ?fs (Join ?refs ''abc123''))"
    by (simp add: ConvertModelIDToHFPath_def Join_def clean_step_def)
  from m a
    RepoSha_ref_or_token [of ?fs "[''cache'', ''hub'']" "''acme/foo''" "''main''" "''abc123''"]
    RepoSha_ref_or_token [of ?fs "[''cache'', ''hub'']" "''acme/foo''" "''abc123''"]
  show ?thesis by blast
qed


section \<open>The snapshot index\<close>

text \<open>
  C8 (as amended). \<^verbatim>\<open>FileExists\<close> calls \<^verbatim>\<open>os.Stat\<close> on
  \<^verbatim>\<open>snapshots/<contentSetID>/<filename>\<close>, which follows links: it reports
  \<^verbatim>\<open>true\<close> exactly when that call succeeds. A missing entry is not found; a regular
  file or a directory is found and described; a link is found, and described by its
  target, when the target is a file, and is not found when the target is missing.
\<close>

theorem FileExists_follows_links:
  fixes baseDir fs modelID sha filename
  defines "entry \<equiv> Join (Join (baseDir @ [ConvertModelIDToHFPath modelID, ''snapshots'']) sha) filename"
  shows "snd (FileExists baseDir fs modelID sha filename) = (\<not> isl (os_Stat fs entry))
       \<and> (lookup fs entry = Inl e \<longrightarrow> FileExists baseDir fs modelID sha filename = (None, False))
       \<and> (lookup fs entry = Inr (File b) \<longrightarrow>
            FileExists baseDir fs modelID sha filename
              = (Some (info_of (base_name entry) (File b)), True))
       \<and> (lookup fs entry = Inr (Dir es) \<longrightarrow>
            FileExists baseDir fs modelID sha filename
              = (Some (info_of (base_name entry) (Dir es)), True))
       \<and> (lookup fs entry = Inr (Symlink t) \<and> lookup fs (target_path entry t) = Inr (File b) \<longrightarrow>
            FileExists baseDir fs modelID sha filename
              = (Some (info_of (base_name entry) (File b)), True))
       \<and> (lookup fs entry = Inr (Symlink t) \<and> lookup fs (target_path entry t) = Inl e \<longrightarrow>
            FileExists baseDir fs modelID sha filename = (None, False))"
proof -
  have f: "FileExists baseDir fs modelID sha filename =
       (case os_Stat fs entry of Inl err \<Rightarrow> (None, False) | Inr info \<Rightarrow> (Some info, True))"
    by (simp add: FileExists_def entry_def)
  show ?thesis
    unfolding f
    by (auto simp: os_Stat_error os_Stat_not_link os_Stat_link_File os_Stat_link_dangling
             split: sum.splits)
qed

theorem FileExists_follows_links_witness:
  "lookup cache_with_blob
      (Join (Join ([''cache'', ''hub''] @ [ConvertModelIDToHFPath ''acme/foo'', ''snapshots''])
         ''abc123'') ''config.json'')
     = Inr (Symlink ''../../blobs/deadbeef'')
   \<and> lookup cache_with_blob
        (target_path
          (Join (Join ([''cache'', ''hub''] @ [ConvertModelIDToHFPath ''acme/foo'', ''snapshots''])
             ''abc123'') ''config.json'')
          ''../../blobs/deadbeef'')
     = Inr (File ''{}'')
   \<and> FileExists [''cache'', ''hub''] cache_with_blob ''acme/foo'' ''abc123'' ''config.json''
     = (Some \<lparr>Name = ''config.json'', Size = 2, IsDir = False, ModeSymlink = False\<rparr>, True)"
proof -
  let ?entry = "Join (Join ([''cache'', ''hub''] @ [ConvertModelIDToHFPath ''acme/foo'', ''snapshots''])
         ''abc123'') ''config.json''"
  have e: "?entry = [''cache'', ''hub'', ''models--acme--foo'', ''snapshots'', ''abc123'', ''config.json'']"
    by (simp add: ConvertModelIDToHFPath_def Join_def clean_step_def)
  have l: "lookup cache_with_blob ?entry = Inr (Symlink ''../../blobs/deadbeef'')"
    unfolding e by (simp add: cache_with_blob_def)
  have t: "lookup cache_with_blob (target_path ?entry ''../../blobs/deadbeef'') = Inr (File ''{}'')"
    unfolding e
    by (simp add: cache_with_blob_def target_path_def IsAbs_def Join_def clean_step_def)
  have i: "info_of (base_name ?entry) (File ''{}'')
             = \<lparr>Name = ''config.json'', Size = 2, IsDir = False, ModeSymlink = False\<rparr>"
    unfolding e by (simp add: info_of_def base_name_def)
  from l t i
    FileExists_follows_links
      [of "[''cache'', ''hub'']" cache_with_blob "''acme/foo''" "''abc123''" "''config.json''"
          _ _ _ "''../../blobs/deadbeef''"]
  show ?thesis by metis
qed

text \<open>
  C8 (as stated) fails: the two caches hold the same snapshot entry and differ only in
  whether the blob it points to exists; \<^verbatim>\<open>FileExists\<close> finds the entry in the one and
  not in the other.
\<close>

theorem FileExists_depends_on_target:
  "lookup cache_without_blob
      [''cache'', ''hub'', ''models--acme--foo'', ''snapshots'', ''abc123'', ''config.json'']
     = Inr (Symlink ''../../blobs/deadbeef'')
   \<and> lookup cache_with_blob
      [''cache'', ''hub'', ''models--acme--foo'', ''snapshots'', ''abc123'', ''config.json'']
     = Inr (Symlink ''../../blobs/deadbeef'')
   \<and> FileExists [''cache'', ''hub''] cache_without_blob ''acme/foo'' ''abc123'' ''config.json''
     = (None, False)
   \<and> snd (FileExists [''cache'', ''hub''] cache_with_blob ''acme/foo'' ''abc123'' ''config.json'')
     = True"
  by (simp add: cache_without_blob_def cache_with_blob_def FileExists_def os_Stat_def
        MAXSYMLINKS_def target_path_def IsAbs_def ConvertModelIDToHFPath_def Join_def
        clean_step_def)





section \<open>Listing a model directory\<close>

text \<open>
  C10. When the encoded model directory exists, \<^verbatim>\<open>ListFiles\<close> returns exactly the
  names of its entries that are not directories, in listing order, so a persisted
  \<^verbatim>\<open>.modeindex\<close> is among them; and nothing stored inside \<^verbatim>\<open>refs\<close>,
  \<^verbatim>\<open>blobs\<close> or \<^verbatim>\<open>snapshots\<close> shows: replacing the whole content of such a
  subdirectory by any other leaves the result unchanged.
\<close>

theorem ListFiles_top_level_files:
  fixes baseDir fs modelID
  defines "modelDir \<equiv> baseDir @ [ConvertModelIDToHFPath modelID]"
  assumes "lookup fs modelDir = Inr (Dir es)"
  shows "Distribution_ListFiles baseDir fs modelID
           = Inr (map fst (filter (\<lambda>entry. \<not> is_Dir (snd entry)) es))
       \<and> (map_of es ''.modeindex'' = Some (File b) \<longrightarrow>
            (\<exists>files. Distribution_ListFiles baseDir fs modelID = Inr files \<and> ''.modeindex'' \<in> set files))
       \<and> (sub \<in> {''refs'', ''blobs'', ''snapshots''} \<and> map_of es sub = Some (Dir ses)
            \<and> update fs (modelDir @ [sub]) (Some (Dir ses')) = Inr fs'
          \<longrightarrow> Distribution_ListFiles baseDir fs' modelID = Distribution_ListFiles baseDir fs modelID)"
proof (intro conjI impI)
  show l: "Distribution_ListFiles baseDir fs modelID
           = Inr (map fst (filter (\<lambda>entry. \<not> is_Dir (snd entry)) es))"
    using assms by (simp add: Distribution_ListFiles_def ListFiles_Dir)
  {
    assume "map_of es ''.modeindex'' = Some (File b)"
    then have "(''.modeindex'', File b) \<in> set es" by (rule map_of_SomeD)
    then have "''.modeindex'' \<in> set (map fst (filter (\<lambda>entry. \<not> is_Dir (snd entry)) es))"
      by force
    with l show "\<exists>files. Distribution_ListFiles baseDir fs modelID = Inr files \<and> ''.modeindex'' \<in> set files"
      by blast
  }
  {
    assume a: "sub \<in> {''refs'', ''blobs'', ''snapshots''} \<and> map_of es sub = Some (Dir ses)
            \<and> update fs (modelDir @ [sub]) (Some (Dir ses')) = Inr fs'"
    with update_entry [OF assms(2)] have "lookup fs' modelDir = Inr (Dir (set_entry sub (Dir ses') es))"
      by blast
    then have "Distribution_ListFiles baseDir fs' modelID
           = Inr (map fst (filter (\<lambda>entry. \<not> is_Dir (snd entry)) (set_entry sub (Dir ses') es)))"
      by (simp add: Distribution_ListFiles_def ListFiles_Dir modelDir_def)
    with a l show "Distribution_ListFiles baseDir fs' modelID = Distribution_ListFiles baseDir fs modelID"
      by (simp add: files_set_entry_Dir)
  }
qed

theorem ListFiles_top_level_files_witness:
  "lookup cache_with_index ([''cache'', ''hub''] @ [ConvertModelIDToHFPath ''acme/foo''])
     = Inr (Dir [(''.modeindex'', File ''index''),
                 (''blobs'', Dir [(''deadbeef'', File ''{}'')]),
                 (''refs'', Dir [(''main'', File ''abc123'')]),
                 (''snapshots'', Dir [(''abc123'', Dir [(''config.json'',
                    Symlink ''../../blobs/deadbeef'')])])])
   \<and> Distribution_ListFiles [''cache'', ''hub''] cache_with_index ''acme/foo'' = Inr [''.modeindex'']
   \<and> update cache_with_index
         (([''cache'', ''hub''] @ [ConvertModelIDToHFPath ''acme/foo'']) @ [''blobs''])
         (Some (Dir [])) = Inr cache_without_blob_with_index
   \<and> Distribution_ListFiles [''cache'', ''hub''] cache_without_blob_with_index ''acme/foo''
     = Inr [''.modeindex'']"
proof -
  let ?es = "[(''.modeindex'', File ''index''),
                 (''blobs'', Dir [(''deadbeef'', File ''{}'')]),
                 (''refs'', Dir [(''main'', File ''abc123'')]),
                 (''snapshots'', Dir [(''abc123'', Dir [(''config.json'',
                    Symlink ''../../blobs/deadbeef'')])])]"
  let ?dir = "[''cache'', ''hub''] @ [ConvertModelIDToHFPath ''acme/foo'']"
  have l: "lookup cache_with_index ?dir = Inr (Dir ?es)"
    by (simp add: cache_with_index_def ConvertModelIDToHFPath_def)
  have u: "update cache_with_index (?dir @ [''blobs'']) (Some (Dir []))
             = Inr cache_without_blob_with_index"
    by (simp add: cache_with_index_def cache_without_blob_with_index_def ConvertModelIDToHFPath_def)
  have m: "map_of ?es ''blobs'' = Some (Dir [(''deadbeef'', File ''{}'')])"
    by simp
  have f: "map fst (filter (\<lambda>entry. \<not> is_Dir (snd entry)) ?es) = [''.modeindex'']"
    by simp
  from ListFiles_top_level_files
         [OF l, of "''index''" "''blobs''" "[(''deadbeef'', File ''{}'')]" "[]"
            cache_without_blob_with_index]
       u m
  have "Distribution_ListFiles [''cache'', ''hub''] cache_with_index ''acme/foo''
          = Inr (map fst (filter (\<lambda>entry. \<not> is_Dir (snd entry)) ?es))"
    and "Distribution_ListFiles [''cache'', ''hub''] cache_without_blob_with_index ''acme/foo''
          = Distribution_ListFiles [''cache'', ''hub''] cache_with_index ''acme/foo''"
    by simp_all
  with l u f show ?thesis by simp
qed


section \<open>The model index builder\<close>

text \<open>
  C2 (as amended). Take a model directory with no \<^verbatim>\<open>.modeindex\<close>, whose ref file
  \<^verbatim>\<open>refs/<token>\<close> can be read and holds \<^verbatim>\<open>sha\<close>, and whose snapshot directory
  \<^verbatim>\<open>snapshots/<sha>\<close> exists and holds no subdirectory (its entries named as directory
  entries are: valid, distinct names). If every entry resolves (a plain file, or a link
  to a blob file directly under \<^verbatim>\<open>blobs\<close>), \<^verbatim>\<open>RepoInfo\<close> returns the synthesized document:
  its siblings are exactly the entry names, in listing order, and its \<^verbatim>\<open>usedStorage\<close> is
  the \<^verbatim>\<open>int64\<close> of the sum of the resolved sizes, a plain file counting its own bytes and a
  link the bytes of the blob it points to; below \<^verbatim>\<open>2^63\<close> it reads as that sum. If the
  blob of some link is missing, \<^verbatim>\<open>RepoInfo\<close> returns an error and no document.
\<close>

theorem RepoInfo_synthesized_from_snapshot:
  fixes baseDir fs now unmarshal modelID version
  defines "repo \<equiv> baseDir @ [ConvertModelIDToHFPath modelID]"
  defines "snapshot \<equiv> Join (repo @ [''snapshots''])"
  defines "used \<equiv> \<lambda>dir es. sum_list (map (resolved_size fs dir) es)"
  assumes noindex: "lookup fs (repo @ [''.modeindex'']) = Inl ENOENT"
    and ref: "os_ReadFile fs (Join (repo @ [''refs'']) version) = Inr sha"
    and snap: "lookup fs (snapshot sha) = Inr (Dir es)"
    and names: "list_all (\<lambda>entry. valid_name (fst entry)) es" "distinct (map fst es)"
    and flat: "list_all (\<lambda>entry. \<not> is_Dir (snd entry)) es"
  shows "(list_all (resolves fs repo (snapshot sha)) es \<longrightarrow>
           Distribution_RepoInfo baseDir fs now unmarshal modelID version =
             Inr \<lparr>info_ID = modelID, info_ModelID = modelID,
                  info_Author = takeWhile (\<lambda>c. c \<noteq> CHR ''/'') modelID, info_SHA = sha,
                  info_LastModified = now, info_Disabled = False, info_CreatedAt = now,
                  info_UsedStorage = of_nat (used (snapshot sha) es),
                  info_Siblings = map (\<lambda>entry. SiblingFile (fst entry)) es\<rparr>
           \<and> (used (snapshot sha) es < 2 ^ 63 \<longrightarrow>
                sint (of_nat (used (snapshot sha) es) :: 64 word) = int (used (snapshot sha) es)))
       \<and> (list_ex (dangling fs repo (snapshot sha)) es \<longrightarrow>
           isl (Distribution_RepoInfo baseDir fs now unmarshal modelID version))"
proof -
  let ?modePath = "ConvertModelIDToHFPath modelID"
  let ?modelDir = "Join (repo @ [''snapshots'']) sha"
  let ?fn = "visit baseDir fs ?modePath ?modelDir"
  have mp: "Join baseDir ?modePath = baseDir @ [?modePath]" by simp
  have st: "os_Stat fs (repo @ [''.modeindex'']) = Inl ENOENT"
    using noindex by (rule os_Stat_error)
  have sha: "getRepoSha baseDir fs modelID version = Inr sha"
    using ref os_ReadFile_ok_Stat_ok [OF ref] by (simp add: getRepoSha_def repo_def Let_def)
  have root: "?fn (base_name ?modelDir) (Dir es) (0, []) = Inr (0, [])"
    by (simp add: visit_def)
  have snap': "lookup fs ?modelDir = Inr (Dir es)"
    using snap by (simp add: snapshot_def)
  have walk: "WalkDir fs ?modelDir ?fn (0, []) = walkDirs ?fn es (0, [])"
    using snap' root by (simp add: WalkDir_def)
  have build: "buildModelIndex baseDir fs now modelID version =
      (case walkDirs ?fn es (0, []) of
         Inl err \<Rightarrow> Inl (WalkFailed err)
       | Inr (totalSize, fileList) \<Rightarrow>
           Inr \<lparr>ID = modelID, ModelID = modelID,
                Author = (case split_slash modelID of [] \<Rightarrow> [] | a # _ \<Rightarrow> a), SHA = sha,
                LastModified = now, Disabled = False, CreatedAt = now,
                UsedStorage = totalSize, Siblings = fileList\<rparr>)"
    using sha walk by (simp add: buildModelIndex_def repo_def Let_def)
  have info: "RepoInfo baseDir fs now unmarshal modelID version =
               buildModelIndex baseDir fs now modelID version"
    using st by (simp add: RepoInfo_def repo_def Let_def)
  show ?thesis
  proof (intro conjI impI)
    assume res: "list_all (resolves fs repo (snapshot sha)) es"
    have "walkDirs ?fn es (0, [])
            = Inr (0 + (of_nat (sum_list (map (\<lambda>entry. resolved_size fs ?modelDir
                                                 (fst entry, snd entry)) es)) :: 64 word),
                   [] @ map (\<lambda>entry. Sibling (fst entry)) es)"
    proof (rule walkDirs_named [OF _ flat])
      fix name d t fl
      assume m: "(name, d) \<in> set es"
      with names(1) res have "valid_name name" "resolves fs (baseDir @ [?modePath]) ?modelDir (name, d)"
        by (auto simp: list_all_iff repo_def snapshot_def)
      from visit_resolves [OF snap' names(2) m this mp]
      show "?fn name d (t, fl)
              = Inr (t + of_nat (resolved_size fs ?modelDir (name, d)), fl @ [Sibling name])" .
    qed
    then show "Distribution_RepoInfo baseDir fs now unmarshal modelID version =
             Inr \<lparr>info_ID = modelID, info_ModelID = modelID,
                  info_Author = takeWhile (\<lambda>c. c \<noteq> CHR ''/'') modelID, info_SHA = sha,
                  info_LastModified = now, info_Disabled = False, info_CreatedAt = now,
                  info_UsedStorage = of_nat (used (snapshot sha) es),
                  info_Siblings = map (\<lambda>entry. SiblingFile (fst entry)) es\<rparr>"
      by (simp add: Distribution_RepoInfo_def info build hd_split_slash comp_def used_def
            snapshot_def)
  next
    assume "used (snapshot sha) es < 2 ^ 63"
    then show "sint (of_nat (used (snapshot sha) es) :: 64 word) = int (used (snapshot sha) es)"
      by (rule sint_of_nat_int64)
  next
    assume "list_ex (dangling fs repo (snapshot sha)) es"
    then obtain name d where m: "(name, d) \<in> set es"
      and dg: "dangling fs (baseDir @ [?modePath]) ?modelDir (name, d)"
      by (auto simp: list_ex_iff repo_def snapshot_def)
    with names(1) have vn: "valid_name name" by (auto simp: list_all_iff)
    have "isl (walkDirs ?fn es (0, []))"
    proof (rule walkDirs_error [OF m _ flat])
      fix acc
      from visit_dangling [OF snap' names(2) m vn mp dg]
      show "isl (?fn name d acc)" .
    qed
    then show "isl (Distribution_RepoInfo baseDir fs now unmarshal modelID version)"
      by (auto simp: Distribution_RepoInfo_def info build split: sum.splits)
  qed
qed

theorem RepoInfo_synthesized_from_snapshot_witness:
  "lookup cache_with_ref (([''cache'', ''hub''] @ [ConvertModelIDToHFPath ''acme/foo'']) @ [''.modeindex''])
     = Inl ENOENT
   \<and> os_ReadFile cache_with_ref
        (Join (([''cache'', ''hub''] @ [ConvertModelIDToHFPath ''acme/foo'']) @ [''refs'']) ''main'')
     = Inr ''abc123''
   \<and> lookup cache_with_ref
        (Join (([''cache'', ''hub''] @ [ConvertModelIDToHFPath ''acme/foo'']) @ [''snapshots'']) ''abc123'')
     = Inr (Dir [(''README.md'', File ''hello''),
                 (''config.json'', Symlink ''../../blobs/deadbeef'')])
   \<and> list_all (resolves cache_with_ref
                  ([''cache'', ''hub''] @ [ConvertModelIDToHFPath ''acme/foo''])
                  (Join (([''cache'', ''hub''] @ [ConvertModelIDToHFPath ''acme/foo''])
                           @ [''snapshots'']) ''abc123''))
        [(''README.md'', File ''hello''), (''config.json'', Symlink ''../../blobs/deadbeef'')]
   \<and> Distribution_RepoInfo [''cache'', ''hub''] cache_with_ref 0 (\<lambda>data. None) ''acme/foo'' ''main''
     = Inr \<lparr>info_ID = ''acme/foo'', info_ModelID = ''acme/foo'', info_Author = ''acme'',
            info_SHA = ''abc123'', info_LastModified = 0, info_Disabled = False,
            info_CreatedAt = 0, info_UsedStorage = 7,
            info_Siblings = [SiblingFile ''README.md'', SiblingFile ''config.json'']\<rparr>
   \<and> sint (7 :: 64 word) = 7"
proof -
  let ?repo = "[''cache'', ''hub''] @ [ConvertModelIDToHFPath ''acme/foo'']"
  let ?snap = "Join (?repo @ [''snapshots'']) ''abc123''"
  let ?es = "[(''README.md'', File ''hello''), (''config.json'', Symlink ''../../blobs/deadbeef'')]"
  have r: "?repo = [''cache'', ''hub'', ''models--acme--foo'']"
    by (simp add: ConvertModelIDToHFPath_def)
  have s: "?snap = [''cache'', ''hub'', ''models--acme--foo'', ''snapshots'', ''abc123'']"
    unfolding r by (simp add: Join_def clean_step_def)
  have noindex: "lookup cache_with_ref (?repo @ [''.modeindex'']) = Inl ENOENT"
    unfolding r by (simp add: cache_with_ref_def)
  have ref: "os_ReadFile cache_with_ref (Join (?repo @ [''refs'']) ''main'') = Inr ''abc123''"
    unfolding r
    by (simp add: cache_with_ref_def os_ReadFile_def MAXSYMLINKS_def Join_def clean_step_def)
  have snap: "lookup cache_with_ref ?snap = Inr (Dir ?es)"
    unfolding s by (simp add: cache_with_ref_def)
  have names: "list_all (\<lambda>entry. valid_name (fst entry)) ?es" "distinct (map fst ?es)"
    by (simp_all add: valid_name_def)
  have flat: "list_all (\<lambda>entry. \<not> is_Dir (snd entry)) ?es"
    by simp
  have res: "list_all (resolves cache_with_ref ?repo ?snap) ?es"
    unfolding s unfolding r
    by (simp add: cache_with_ref_def blob_of_def target_path_def IsAbs_def Split_file_def
          Join_def clean_step_def)
  have sz: "sum_list (map (resolved_size cache_with_ref ?snap) ?es) = 7"
    unfolding s
    by (simp add: cache_with_ref_def target_path_def IsAbs_def Join_def clean_step_def)
  note T = RepoInfo_synthesized_from_snapshot
             [OF noindex ref snap names flat, of 0 "\<lambda>data. None"]
  from T res
  have "Distribution_RepoInfo [''cache'', ''hub''] cache_with_ref 0 (\<lambda>data. None) ''acme/foo'' ''main''
     = Inr \<lparr>info_ID = ''acme/foo'', info_ModelID = ''acme/foo'',
            info_Author = takeWhile (\<lambda>c. c \<noteq> CHR ''/'') ''acme/foo'',
            info_SHA = ''abc123'', info_LastModified = 0, info_Disabled = False,
            info_CreatedAt = 0,
            info_UsedStorage = of_nat (sum_list (map (resolved_size cache_with_ref ?snap) ?es)),
            info_Siblings = map (\<lambda>entry. SiblingFile (fst entry)) ?es\<rparr>"
    by blast
  then have "Distribution_RepoInfo [''cache'', ''hub''] cache_with_ref 0 (\<lambda>data. None) ''acme/foo'' ''main''
     = Inr \<lparr>info_ID = ''acme/foo'', info_ModelID = ''acme/foo'', info_Author = ''acme'',
            info_SHA = ''abc123'', info_LastModified = 0, info_Disabled = False,
            info_CreatedAt = 0, info_UsedStorage = 7,
            info_Siblings = [SiblingFile ''README.md'', SiblingFile ''config.json'']\<rparr>"
    unfolding sz by simp
  moreover have "sint (7 :: 64 word) = 7" by simp
  ultimately have "Distribution_RepoInfo [''cache'', ''hub''] cache_with_ref 0 (\<lambda>data. None) ''acme/foo'' ''main''
     = Inr \<lparr>info_ID = ''acme/foo'', info_ModelID = ''acme/foo'', info_Author = ''acme'',
            info_SHA = ''abc123'', info_LastModified = 0, info_Disabled = False,
            info_CreatedAt = 0, info_UsedStorage = 7,
            info_Siblings = [SiblingFile ''README.md'', SiblingFile ''config.json'']\<rparr>
      \<and> sint (7 :: 64 word) = 7"
    by blast
  with noindex ref snap res show ?thesis by blast
qed

text \<open>
  C2 (as stated) fails: this model directory has no \<^verbatim>\<open>.modeindex\<close>, its ref
  \<^verbatim>\<open>refs/main\<close> resolves to \<^verbatim>\<open>abc123\<close> and the snapshot directory of \<^verbatim>\<open>abc123\<close>
  holds two entries, but the blob of the link is missing: \<^verbatim>\<open>RepoInfo\<close> returns the
  error of the walk and no document.
\<close>

theorem RepoInfo_dangling_entry_fails:
  "lookup cache_with_ref_without_blob
      [''cache'', ''hub'', ''models--acme--foo'', ''.modeindex''] = Inl ENOENT
   \<and> RepoSha [''cache'', ''hub''] cache_with_ref_without_blob ''acme/foo'' ''main'' = ''abc123''
   \<and> lookup cache_with_ref_without_blob
      [''cache'', ''hub'', ''models--acme--foo'', ''snapshots'', ''abc123'']
     = Inr (Dir [(''README.md'', File ''hello''),
                 (''config.json'', Symlink ''../../blobs/deadbeef'')])
   \<and> Distribution_RepoInfo [''cache'', ''hub''] cache_with_ref_without_blob 0 (\<lambda>data. None)
        ''acme/foo'' ''main''
     = Inl (WalkFailed ENOENT)"
  by (simp add: cache_with_ref_without_blob_def Distribution_RepoInfo_def RepoInfo_def
        buildModelIndex_def RepoSha_def getRepoSha_def WalkDir_def visit_def os_Stat_def
        os_ReadFile_def os_Readlink_def MAXSYMLINKS_def info_of_def base_name_def
        ConvertModelIDToHFPath_def Split_file_def Join_def clean_step_def Let_def)


section \<open>Concrete runs\<close>

lemma enc_acme_foo: "ConvertModelIDToHFPath ''acme/foo'' = ''models--acme--foo''"
  by (simp add: ConvertModelIDToHFPath_def)

lemmas os_eval = os_Stat_def os_ReadFile_def
  os_Readlink_def os_ReadDir_def os_Create_def os_Remove_def MAXSYMLINKS_def truncate_at_def
  ensure_dir_def ignoring_error_def proxy_path_def Get_def info_of_def base_name_def Let_def
  target_path_def IsAbs_def path_string_def

lemmas fs_eval = enc_acme_foo Join_valid_name valid_name_def os_eval

lemmas fs_eval_split = enc_acme_foo Join_def clean_step_def os_eval

text \<open>
  C1. Capturing the index response of \<^verbatim>\<open>acme/foo\<close> at revision \<^verbatim>\<open>main\<close> with header
  \<^verbatim>\<open>x-repo-commit: abc123\<close>, into an empty cache and into one that holds an earlier
  \<^verbatim>\<open>.modeindex\<close> and the ref \<^verbatim>\<open>refs/main\<close> with content \<^verbatim>\<open>abc123\<close>: the body becomes
  the new \<^verbatim>\<open>.modeindex\<close>, but \<^verbatim>\<open>refs/main\<close> is left empty (\<^verbatim>\<open>os.Create\<close> makes or
  empties it and nothing is written to it), so \<^verbatim>\<open>RepoSha\<close> resolves \<^verbatim>\<open>main\<close> to the
  empty string, not to \<^verbatim>\<open>abc123\<close>.
\<close>

theorem capture_index_leaves_ref_empty:
  "capture [''cache''] (Dir []) index_response =
     Dir [(''cache'', Dir [(''hub'', Dir [(''models--acme--foo'',
        Dir [(''.modeindex'', File ''{id: acme/foo}''),
             (''refs'', Dir [(''main'', File [])])])])])]
   \<and> RepoSha [''cache'', ''hub''] (capture [''cache''] (Dir []) index_response) ''acme/foo'' ''main''
     = []
   \<and> lookup cache_with_index [''cache'', ''hub'', ''models--acme--foo'', ''refs'', ''main'']
     = Inr (File ''abc123'')
   \<and> lookup (capture [''cache''] cache_with_index index_response)
        [''cache'', ''hub'', ''models--acme--foo'', ''.modeindex'']
     = Inr (File ''{id: acme/foo}'')
   \<and> lookup (capture [''cache''] cache_with_index index_response)
        [''cache'', ''hub'', ''models--acme--foo'', ''refs'', ''main'']
     = Inr (File [])"
proof -
  let ?h = "[''cache'', ''hub'', ''models--acme--foo'', ''.modeindex'']"
  let ?fs1 = "Dir [(''cache'', Dir [(''hub'', Dir [(''models--acme--foo'',
        Dir [(''.modeindex'', File []),
             (''refs'', Dir [(''main'', File [])])])])])]"
  let ?fs1' = "Dir [(''cache'', Dir [(''hub'', Dir [(''models--acme--foo'',
        Dir [(''.modeindex'', File ''{id: acme/foo}''),
             (''refs'', Dir [(''main'', File [])])])])])]"
  let ?fs2 = "Dir [(''cache'', Dir [(''hub'', Dir [(''models--acme--foo'',
       Dir [(''blobs'', Dir [(''deadbeef'', File ''{}'')]),
            (''refs'', Dir [(''main'', File [])]),
            (''snapshots'', Dir [(''abc123'', Dir [(''config.json'',
               Symlink ''../../blobs/deadbeef'')])]),
            (''.modeindex'', File [])])])])]"
  let ?fs2' = "Dir [(''cache'', Dir [(''hub'', Dir [(''models--acme--foo'',
       Dir [(''blobs'', Dir [(''deadbeef'', File ''{}'')]),
            (''refs'', Dir [(''main'', File [])]),
            (''snapshots'', Dir [(''abc123'', Dir [(''config.json'',
               Symlink ''../../blobs/deadbeef'')])]),
            (''.modeindex'', File ''{id: acme/foo}'')])])])]"
  have body: "Body index_response = [''{id: '', ''acme/foo}'']"
    by (simp add: index_response_def)
  have hook1: "WithModifyResponseToCache [''cache''] (Dir []) index_response = (?fs1, Inr (Some ?h))"
    by (simp add: index_response_def WithModifyResponseToCache_def CreateModelIndexFile_def fs_eval)
  have stream1: "writer (fst (tee_stream (fs_Write ?h) \<lparr>writer = ?fs1, buffer = bufferPool_New\<rparr>
                    [''{id: '', ''acme/foo}''])) = ?fs1'"
    by (simp add: bufferPool_New_def Write_def Write_loop.simps copy_def fs_Write_def)
  have cap1: "capture [''cache''] (Dir []) index_response = ?fs1'"
    unfolding capture_def hook1 body using stream1 by simp
  have sha1: "RepoSha [''cache'', ''hub''] ?fs1' ''acme/foo'' ''main'' = []"
    by (simp add: RepoSha_def getRepoSha_def fs_eval)
  have hook2: "WithModifyResponseToCache [''cache''] cache_with_index index_response
                 = (?fs2, Inr (Some ?h))"
    by (simp add: index_response_def cache_with_index_def WithModifyResponseToCache_def
          CreateModelIndexFile_def fs_eval)
  have stream2: "writer (fst (tee_stream (fs_Write ?h) \<lparr>writer = ?fs2, buffer = bufferPool_New\<rparr>
                    [''{id: '', ''acme/foo}''])) = ?fs2'"
    by (simp add: bufferPool_New_def Write_def Write_loop.simps copy_def fs_Write_def)
  have cap2: "capture [''cache''] cache_with_index index_response = ?fs2'"
    unfolding capture_def hook2 body using stream2 by simp
  have old: "lookup cache_with_index [''cache'', ''hub'', ''models--acme--foo'', ''refs'', ''main'']
     = Inr (File ''abc123'')"
    by (simp add: cache_with_index_def)
  show ?thesis
    unfolding cap1 cap2 using sha1 old by simp
qed

text \<open>
  C4. Capturing a file response whose entity tag is the weak \<^verbatim>\<open>W/"deadbeef"\<close>: the
  blob path is \<^verbatim>\<open>blobs/W/deadbeef\<close>, \<^verbatim>\<open>os.Create\<close> fails there (no directory
  \<^verbatim>\<open>blobs/W\<close>), and \<^verbatim>\<open>CreateModelFile\<close> still makes the snapshot entry before it
  returns that error: the entry is left pointing at a blob that does not exist.
\<close>

theorem CreateModelFile_dangling_entry:
  "CreateModelFile [''cache''] (Dir []) weak_etag_response =
     (Dir [(''cache'', Dir [(''hub'', Dir [(''models--acme--foo'',
        Dir [(''blobs'', Dir []),
             (''snapshots'', Dir [(''abc123'', Dir [(''config.json'',
                Symlink ''/cache/hub/models--acme--foo/blobs/W/deadbeef'')])])])])])],
      Inl ENOENT)
   \<and> lookup (fst (CreateModelFile [''cache''] (Dir []) weak_etag_response))
        [''cache'', ''hub'', ''models--acme--foo'', ''blobs'', ''W'', ''deadbeef''] = Inl ENOENT
   \<and> os_Stat (fst (CreateModelFile [''cache''] (Dir []) weak_etag_response))
        [''cache'', ''hub'', ''models--acme--foo'', ''snapshots'', ''abc123'', ''config.json'']
     = Inl ENOENT
   \<and> capture [''cache''] (Dir []) weak_etag_response
     = fst (CreateModelFile [''cache''] (Dir []) weak_etag_response)"
  by (simp add: weak_etag_response_def capture_def WithModifyResponseToCache_def
        CreateModelFile_def getCommitAndEtag_def symlinkOrRename_def fs_eval_split)

text \<open>
  C7. The model directory of \<^verbatim>\<open>acme/foo\<close> exists and \<^verbatim>\<open>ListFiles\<close> lists its
  \<^verbatim>\<open>.modeindex\<close> of 5 bytes, but \<^verbatim>\<open>GetStorageInfo\<close> looks for the directory
  \<^verbatim>\<open>hub/acme/foo\<close>: without it the answer is "model not found", and with it (after an
  upload) every listed name is looked up there, not found and skipped, so the total is 0.
\<close>

theorem GetStorageInfo_unencoded_directory:
  "lookup cache_with_index [''cache'', ''hub'', ''models--acme--foo'']
     = Inr (Dir [(''.modeindex'', File ''index''),
                 (''blobs'', Dir [(''deadbeef'', File ''{}'')]),
                 (''refs'', Dir [(''main'', File ''abc123'')]),
                 (''snapshots'', Dir [(''abc123'', Dir [(''config.json'',
                    Symlink ''../../blobs/deadbeef'')])])])
   \<and> Distribution_ListFiles [''cache'', ''hub''] cache_with_index ''acme/foo'' = Inr [''.modeindex'']
   \<and> GetStorageInfo [''cache'', ''hub''] cache_with_index ''acme/foo''
     = Inl (ModelNotFound ''acme/foo'')
   \<and> Distribution_ListFiles [''cache'', ''hub''] cache_with_upload ''acme/foo'' = Inr [''.modeindex'']
   \<and> os_Stat cache_with_upload [''cache'', ''hub'', ''models--acme--foo'', ''.modeindex'']
     = Inr \<lparr>Name = ''.modeindex'', Size = 5, IsDir = False, ModeSymlink = False\<rparr>
   \<and> GetStorageInfo [''cache'', ''hub''] cache_with_upload ''acme/foo'' = Inr 0"
  by (simp add: cache_with_index_def cache_with_upload_def GetStorageInfo_def
        Distribution_ListFiles_def ListFiles_def fs_eval_split)

end
